theory Spec2Isabelle
  imports Complex_Main "HOL-Library.AList"
begin

section \<open>Python values shared by the model\<close>

text \<open>
  The exceptions the modelled code can raise.  A function that can raise returns
  \<open>error + 'a\<close>, with \<open>Inl\<close> carrying the exception.  The source has no exception class
  of its own: what the specification calls a configuration error is a \<open>ValueError\<close>
  in \<open>get_recipe\<close>, \<open>apply_scaling\<close> and \<open>from_name\<close>.
\<close>

datatype error =
    ValueError | AssertionError | IndexError | RuntimeError
  | KeyError | ZeroDivisionError | TypeError

section \<open>Model recipes and fusion (model.py, lines 53-56 and 168-249)\<close>

text \<open>
  \<^verbatim>\<open>def identity(**kwargs)\<close>: the keyword arguments are a dict, modelled as an association
  list in insertion order.
\<close>

definition identity :: "(string \<times> 'a) list \<Rightarrow> error + 'a" where
  "identity kwargs =
     (if length kwargs \<noteq> 1 then Inl ValueError else Inr (snd (hd kwargs)))"

datatype ModelType = TextOnly | Llama3_1 | Flamingo | Llava

text \<open>
  \<open>ModuleLike\<close>: the callables a recipe refers to.  \<open>Transformer_class\<close> and
  \<open>ConcateFusion_class\<close> are the classes of this file, \<open>identity_function\<close> is
  \<open>identity\<close> above, the others are imported from torchtune.
\<close>

datatype ModuleLike =
    Transformer_class | llama3_1_builder | flamingo_vision_encoder | flamingo_decoder
  | clip_vision_encoder | identity_function | DeepFusionModel | ConcateFusion_class

record ModelRecipe =
  model_type :: ModelType
  modules :: "(string \<times> ModuleLike) list"
  fusion_class :: ModuleLike

definition text_only :: ModelRecipe where
  "text_only = \<lparr>model_type = TextOnly, modules = [(''text'', Transformer_class)],
     fusion_class = identity_function\<rparr>"

definition llama3_1 :: ModelRecipe where
  "llama3_1 = \<lparr>model_type = Llama3_1, modules = [(''text'', llama3_1_builder)],
     fusion_class = identity_function\<rparr>"

definition flamingo :: ModelRecipe where
  "flamingo = \<lparr>model_type = Flamingo,
     modules = [(''encoder'', flamingo_vision_encoder), (''decoder'', flamingo_decoder)],
     fusion_class = DeepFusionModel\<rparr>"

definition llava :: ModelRecipe where
  "llava = \<lparr>model_type = Llava,
     modules = [(''encoder'', clip_vision_encoder), (''decoder'', Transformer_class)],
     fusion_class = ConcateFusion_class\<rparr>"

text \<open>
  The argument of \<open>get_recipe\<close> is any Python value: a member of the enum, or something
  else (a string, say; a string never equals an enum member).
\<close>

datatype model_type_arg = Member ModelType | NonMember string

fun get_recipe :: "model_type_arg \<Rightarrow> error + ModelRecipe" where
  "get_recipe (Member TextOnly) = Inr text_only"
| "get_recipe (Member Flamingo) = Inr flamingo"
| "get_recipe (Member Llama3_1) = Inr llama3_1"
| "get_recipe (Member Llava) = Inr llava"
| "get_recipe (NonMember v) = Inl ValueError"

text \<open>
  \<open>Model.build_model\<close> (lines 451-468).  The raw parameter dictionaries are of an
  arbitrary type \<open>'p\<close> and the built modules of an arbitrary type \<open>'m\<close>; constructing a
  \<open>Transformer\<close> from parameters, calling an imported builder and calling a fusion class
  other than \<open>identity\<close> are the three parameters \<open>new_Transformer\<close>, \<open>call_builder\<close>
  and \<open>call_fusion\<close>.
\<close>

record 'p ModelArgs =
  args_model_type :: ModelType
  transformer_args :: "string \<rightharpoonup> 'p"

fun build_modules ::
  "('p \<Rightarrow> error + 'm) \<Rightarrow> (ModuleLike \<Rightarrow> 'p \<Rightarrow> error + 'm) \<Rightarrow> (string \<rightharpoonup> 'p) \<Rightarrow>
   (string \<times> ModuleLike) list \<Rightarrow> (string \<times> 'm) list \<Rightarrow> error + (string \<times> 'm) list" where
  "build_modules new_Transformer call_builder targs [] built = Inr built"
| "build_modules new_Transformer call_builder targs ((name, module_class) # rest) built =
     (case targs name of
        None \<Rightarrow> Inl KeyError
      | Some config_args \<Rightarrow>
          (case (if module_class = Transformer_class then new_Transformer config_args
                 else call_builder module_class config_args) of
             Inl e \<Rightarrow> Inl e
           | Inr m \<Rightarrow>
               build_modules new_Transformer call_builder targs rest
                 (AList.update name m built)))"

definition call_fusion_class ::
  "(ModuleLike \<Rightarrow> (string \<times> 'm) list \<Rightarrow> error + 'm) \<Rightarrow> ModuleLike \<Rightarrow>
   (string \<times> 'm) list \<Rightarrow> error + 'm" where
  "call_fusion_class call_fusion fusion kwargs =
     (if fusion = identity_function then identity kwargs else call_fusion fusion kwargs)"

definition build_model ::
  "('p \<Rightarrow> error + 'm) \<Rightarrow> (ModuleLike \<Rightarrow> 'p \<Rightarrow> error + 'm) \<Rightarrow>
   (ModuleLike \<Rightarrow> (string \<times> 'm) list \<Rightarrow> error + 'm) \<Rightarrow> 'p ModelArgs \<Rightarrow> error + 'm" where
  "build_model new_Transformer call_builder call_fusion config =
     (case get_recipe (Member (args_model_type config)) of
        Inl e \<Rightarrow> Inl e
      | Inr recipe \<Rightarrow>
          (case build_modules new_Transformer call_builder (transformer_args config)
                  (modules recipe) [] of
             Inl e \<Rightarrow> Inl e
           | Inr built \<Rightarrow> call_fusion_class call_fusion (fusion_class recipe) built))"

section \<open>Looking a configuration up by name (model.py, lines 376-407)\<close>

text \<open>
  A Python \<open>str\<close> is a sequence of Unicode code points, and \<open>len\<close> counts them: a string is
  the list of its code points.  The literals of the source are all in ASCII; \<open>ascii\<close> gives
  the string of such a literal.
\<close>

type_synonym str = "nat list"

definition ascii :: "string \<Rightarrow> str" where
  "ascii s = map of_char s"

text \<open>
  \<^verbatim>\<open>config.replace(".json", "")\<close>: every occurrence of \<open>.json\<close> is removed, from the left.
\<close>

fun replace_json :: "str \<Rightarrow> str" where
  "replace_json [] = []"
| "replace_json (c # cs) =
     (if take 5 (c # cs) = ascii ''.json'' then replace_json (drop 4 cs)
      else c # replace_json cs)"

text \<open>\<^verbatim>\<open>sub in s\<close> on strings.\<close>

fun is_substring :: "str \<Rightarrow> str \<Rightarrow> bool" where
  "is_substring sub [] = (sub = [])"
| "is_substring sub (c # cs) = (take (length sub) (c # cs) = sub \<or> is_substring sub cs)"

text \<open>
  The list comprehension that keeps the known names found in the key.  \<^verbatim>\<open>str.upper\<close> is a
  built-in of Python that follows the case mappings of Unicode (it may change the length
  of a string); it is the parameter \<open>upper\<close> here and in \<open>from_name\<close>, and nothing is
  assumed of it.
\<close>

definition fuzzy_matches :: "(str \<Rightarrow> str) \<Rightarrow> str list \<Rightarrow> str \<Rightarrow> str list" where
  "fuzzy_matches upper known_model_params name =
     filter (\<lambda>config. is_substring config (upper name) \<or> is_substring config name)
       known_model_params"

text \<open>
  \<open>ModelArgs.from_name\<close>.  The directory of parameter files is given by \<open>is_file\<close>, which
  says whether a file name in it is that of a regular file, and by \<open>listdir\<close>, the result
  of \<^verbatim>\<open>os.listdir(config_path)\<close>.  The result is the name of the file that is handed to
  \<open>from_params\<close>; reading that file is not modelled.  \<^verbatim>\<open>config.sort(key=len, reverse=True)\<close>
  is a stable sort by decreasing length, as \<open>sort_key\<close> with the negated length is.
\<close>

definition from_name ::
  "(str \<Rightarrow> str) \<Rightarrow> (str \<Rightarrow> bool) \<Rightarrow> str list \<Rightarrow> str \<Rightarrow> error + str" where
  "from_name upper is_file listdir name =
     (if is_file (name @ ascii ''.json'') then Inr (name @ ascii ''.json'')
      else
        let known_model_params = map replace_json listdir;
            config = fuzzy_matches upper known_model_params name
        in if length config > 1 then
             (let config = sort_key (\<lambda>c. - int (length c)) config
              in if \<not> length (config ! 0) \<noteq> length (config ! 1) then Inl AssertionError
                 else Inr (config ! 0 @ ascii ''.json''))
           else if length config = 0 then Inl ValueError
           else Inr (config ! 0 @ ascii ''.json''))"

text \<open>
  What \<^verbatim>\<open>str.upper\<close> does on a string of ASCII characters: the letters \<open>a\<close> to \<open>z\<close> (code
  points 97 to 122) become \<open>A\<close> to \<open>Z\<close>.  It is used on the examples, whose strings are all
  in ASCII.
\<close>

definition ascii_upper :: "str \<Rightarrow> str" where
  "ascii_upper s = map (\<lambda>c. if 97 \<le> c \<and> c \<le> 122 then c - 32 else c) s"

section \<open>Tensors\<close>

text \<open>
  A tensor is its shape and its elements, read by a multi-index.  Only the indices within
  the shape are meaningful.  The element type stands for the floating-point dtype: every
  operation on caches below only copies elements, so it plays no role there.
\<close>

record 'a tensor =
  shape :: "nat list"
  elem :: "nat list \<Rightarrow> 'a"

text \<open>\<^verbatim>\<open>torch.zeros(sizes)\<close>: a negative size is refused.\<close>

definition torch_zeros :: "int list \<Rightarrow> error + real tensor" where
  "torch_zeros sizes =
     (if list_ex (\<lambda>n. n < 0) sizes then Inl RuntimeError
      else Inr \<lparr>shape = map nat sizes, elem = (\<lambda>idx. 0)\<rparr>)"

text \<open>
  Broadcasting of a value of shape \<open>src\<close> to the shape \<open>tgt\<close>: the shapes are aligned at
  their last axes, and an axis of size 1 is repeated.
\<close>

definition broadcastable :: "nat list \<Rightarrow> nat list \<Rightarrow> bool" where
  "broadcastable src tgt =
     (length src \<le> length tgt \<and>
      list_all2 (\<lambda>s t. s = t \<or> s = 1) src (drop (length tgt - length src) tgt))"

definition broadcast_index :: "nat list \<Rightarrow> nat list \<Rightarrow> nat list" where
  "broadcast_index src idx =
     map2 (\<lambda>s i. if s = 1 then 0 else i) src (drop (length idx - length src) idx)"

text \<open>The last place of a value in a list (the write that wins when an index repeats).\<close>

fun last_index :: "'a list \<Rightarrow> 'a \<Rightarrow> nat option" where
  "last_index [] x = None"
| "last_index (y # ys) x =
     (case last_index ys x of
        Some i \<Rightarrow> Some (Suc i)
      | None \<Rightarrow> if y = x then Some 0 else None)"

text \<open>
  \<^verbatim>\<open>torch.ops.aten.index_put_(self, [None, None, input_pos], values)\<close> (named
  \<open>index_put\<close> here), that is
  \<^verbatim>\<open>self[:, :, input_pos] = values\<close> in place: the index tensor \<open>input_pos\<close> (one axis)
  selects along axis 2, a negative index counts from the end, an index out of range is
  an error, and \<open>values\<close> is broadcast to the shape of the selected region.  The result
  is \<open>self\<close> itself, updated.  Where \<open>input_pos\<close> repeats an index the writes are taken in
  order (torch leaves the winner open).
\<close>

definition index_put :: "'a tensor \<Rightarrow> int list \<Rightarrow> 'a tensor \<Rightarrow> error + 'a tensor" where
  "index_put self input_pos values =
     (if length (shape self) < 3 then Inl IndexError
      else
        let size = int (shape self ! 2);
            target = take 2 (shape self) @ [length input_pos] @ drop 3 (shape self)
        in
          if \<not> broadcastable (shape values) target then Inl RuntimeError
          else if list_ex (\<lambda>p. p < - size \<or> size \<le> p) input_pos then Inl IndexError
          else
            let pos = map (\<lambda>p. nat (if p < 0 then p + size else p)) input_pos
            in Inr (self\<lparr>elem :=
                 (\<lambda>idx. case last_index pos (idx ! 2) of
                           None \<Rightarrow> elem self idx
                         | Some i \<Rightarrow> elem values (broadcast_index (shape values) (idx[2 := i])))\<rparr>))"

section \<open>The key/value cache (model.py, lines 410-434)\<close>

record KVCache =
  k_cache :: "real tensor"
  v_cache :: "real tensor"

text \<open>\<open>KVCache.__init__\<close>; the dtype is left out.\<close>

definition KVCache_init :: "int \<Rightarrow> int \<Rightarrow> int \<Rightarrow> int \<Rightarrow> error + KVCache" where
  "KVCache_init max_batch_size max_seq_length n_heads head_dim =
     (let cache_shape = [max_batch_size, n_heads, max_seq_length, head_dim] in
      case torch_zeros cache_shape of
        Inl e \<Rightarrow> Inl e
      | Inr k \<Rightarrow> (case torch_zeros cache_shape of
                    Inl e \<Rightarrow> Inl e
                  | Inr v \<Rightarrow> Inr \<lparr>k_cache = k, v_cache = v\<rparr>))"

text \<open>
  \<open>KVCache.update\<close>: the cache after the call, and the pair \<open>(k_out, v_out)\<close> it returns.
  \<open>k_val.shape[2]\<close> needs three axes; the \<open>assert\<close> compares it with the number of
  positions.  An exception leaves the cache partly written; the model keeps no state for
  a call that raises.
\<close>

definition update ::
  "KVCache \<Rightarrow> int list \<Rightarrow> real tensor \<Rightarrow> real tensor \<Rightarrow>
   error + (KVCache \<times> real tensor \<times> real tensor)" where
  "update self input_pos k_val v_val =
     (if length (shape k_val) < 3 then Inl IndexError
      else if length input_pos \<noteq> shape k_val ! 2 then Inl AssertionError
      else
        case index_put (k_cache self) input_pos k_val of
          Inl e \<Rightarrow> Inl e
        | Inr k_out \<Rightarrow>
            (case index_put (v_cache self) input_pos v_val of
               Inl e \<Rightarrow> Inl e
             | Inr v_out \<Rightarrow> Inr (self\<lparr>k_cache := k_out, v_cache := v_out\<rparr>, k_out, v_out)))"

section \<open>Rotary tables (model.py, lines 905-995)\<close>

text \<open>
  The frequencies are floating-point numbers in the source.  The model computes with
  real numbers: it gives the branch taken and the formula evaluated, not the rounding.
  The scaling parameters are Python numbers, so a division by one of them that is zero
  raises \<open>ZeroDivisionError\<close>; a division by a tensor element does not raise in torch
  (it gives an infinity or a NaN), so the model stands for the source only for non-zero
  frequencies and a non-zero \<open>factor\<close>: every statement below about the frequencies
  returned by \<open>apply_scaling\<close> has these as hypotheses, or is about given non-zero numbers.
\<close>

definition required_keys :: "string list" where
  "required_keys =
     [''factor'', ''low_freq_factor'', ''high_freq_factor'',
      ''original_max_position_embeddings'']"

text \<open>The body of the loop of \<open>apply_scaling\<close>, for one frequency.\<close>

definition scale_freq :: "real \<Rightarrow> real \<Rightarrow> real \<Rightarrow> real \<Rightarrow> real \<Rightarrow> error + real" where
  "scale_freq scale_factor low_freq_factor high_freq_factor old_context_len freq =
     (let low_freq_wavelen = old_context_len / low_freq_factor;
          high_freq_wavelen = old_context_len / high_freq_factor;
          wavelen = 2 * pi / freq
      in if wavelen < high_freq_wavelen then Inr freq
         else if wavelen > low_freq_wavelen then Inr (freq / scale_factor)
         else if \<not> low_freq_wavelen \<noteq> high_freq_wavelen then Inl AssertionError
         else
           let smooth = (old_context_len / wavelen - low_freq_factor) /
                        (high_freq_factor - low_freq_factor)
           in Inr ((1 - smooth) * freq / scale_factor + smooth * freq))"

fun scale_freqs :: "real \<Rightarrow> real \<Rightarrow> real \<Rightarrow> real \<Rightarrow> real list \<Rightarrow> error + real list" where
  "scale_freqs sf lo hi old [] = Inr []"
| "scale_freqs sf lo hi old (freq # freqs) =
     (case scale_freq sf lo hi old freq of
        Inl e \<Rightarrow> Inl e
      | Inr f \<Rightarrow> (case scale_freqs sf lo hi old freqs of
                    Inl e \<Rightarrow> Inl e
                  | Inr fs \<Rightarrow> Inr (f # fs)))"

definition apply_scaling :: "real list \<Rightarrow> (string \<rightharpoonup> real) \<Rightarrow> error + real list" where
  "apply_scaling freqs rope_scaling =
     (if \<not> list_all (\<lambda>key. rope_scaling key \<noteq> None) required_keys then Inl ValueError
      else
        let scale_factor = the (rope_scaling ''factor'');
            low_freq_factor = the (rope_scaling ''low_freq_factor'');
            high_freq_factor = the (rope_scaling ''high_freq_factor'');
            old_context_len = the (rope_scaling ''original_max_position_embeddings'')
        in if low_freq_factor = 0 \<or> high_freq_factor = 0 then Inl ZeroDivisionError
           else scale_freqs scale_factor low_freq_factor high_freq_factor old_context_len
                  freqs)"

text \<open>
  \<open>precompute_freqs_cis\<close>: the table of shape \<open>[seq_len, n_elem // 2, 2]\<close> holding the cosine
  and the sine of position times frequency.  \<^verbatim>\<open>torch.arange\<close> refuses a negative bound.
  \<open>base ** x\<close> is written \<open>powr\<close>, which is the power for a positive base.
\<close>

definition precompute_freqs_cis ::
  "int \<Rightarrow> int \<Rightarrow> real \<Rightarrow> (string \<rightharpoonup> real) option \<Rightarrow> error + real tensor" where
  "precompute_freqs_cis n_elem seq_len base rope_scaling =
     (if n_elem < 0 then Inl RuntimeError
      else if seq_len < 0 then Inl RuntimeError
      else
        let freqs = map (\<lambda>i. 1 / (base powr (real (2 * i) / real_of_int n_elem)))
                      [0 ..< nat (n_elem div 2)]
        in case (case rope_scaling of
                   None \<Rightarrow> Inr freqs
                 | Some rs \<Rightarrow> apply_scaling freqs rs) of
             Inl e \<Rightarrow> Inl e
           | Inr freqs \<Rightarrow>
               Inr \<lparr>shape = [nat seq_len, length freqs, 2],
                    elem = (\<lambda>idx. if idx ! 2 = 0 then cos (real (idx ! 0) * freqs ! (idx ! 1))
                                   else sin (real (idx ! 0) * freqs ! (idx ! 1)))\<rparr>)"

text \<open>
  \<open>hf_precompute_freqs_cis\<close>: the frequencies are taken twice along the channel axis; the
  keyword argument \<open>rope_scaling\<close> falls into \<open>**kwargs\<close> and is not used.
\<close>

definition hf_precompute_freqs_cis ::
  "int \<Rightarrow> int \<Rightarrow> real \<Rightarrow> (string \<rightharpoonup> real) option \<Rightarrow> error + real tensor" where
  "hf_precompute_freqs_cis dim' end' theta kwargs =
     (if dim' < 0 then Inl RuntimeError
      else if end' < 0 then Inl RuntimeError
      else
        let freqs = map (\<lambda>i. 1 / (theta powr (real (2 * i) / real_of_int dim')))
                      [0 ..< nat ((dim' + 1) div 2)];
            emb = freqs @ freqs
        in Inr \<lparr>shape = [nat end', length emb, 2],
                elem = (\<lambda>idx. if idx ! 2 = 0 then cos (real (idx ! 0) * emb ! (idx ! 1))
                               else sin (real (idx ! 0) * emb ! (idx ! 1)))\<rparr>)"

text \<open>The scaling parameters of the examples (those of Llama 3.1).\<close>

definition llama_scaling :: "string \<rightharpoonup> real" where
  "llama_scaling = [''factor'' \<mapsto> 8, ''low_freq_factor'' \<mapsto> 1, ''high_freq_factor'' \<mapsto> 4,
     ''original_max_position_embeddings'' \<mapsto> 8192]"

text \<open>
  Two further parameter sets with the four keys: one whose thresholds are the other way
  round, and one with a zero \<open>low_freq_factor\<close>.
\<close>

definition inverted_scaling :: "string \<rightharpoonup> real" where
  "inverted_scaling = [''factor'' \<mapsto> 8, ''low_freq_factor'' \<mapsto> 4, ''high_freq_factor'' \<mapsto> 1,
     ''original_max_position_embeddings'' \<mapsto> 8192]"

definition zero_low_scaling :: "string \<rightharpoonup> real" where
  "zero_low_scaling = [''factor'' \<mapsto> 8, ''low_freq_factor'' \<mapsto> 0, ''high_freq_factor'' \<mapsto> 4,
     ''original_max_position_embeddings'' \<mapsto> 8192]"

section \<open>The decoder's caches (model.py, lines 252-299, 584-649 and 733-770)\<close>

text \<open>
  Modelled from the spec: \<open>find_multiple\<close> is imported from
  \<open>torchchat.utils.build_utils\<close>, which is not among the sources.  The specification says
  of \<open>setup_caches\<close> that it "rounds the requested sequence length up to a fixed
  alignment": \<open>find_multiple n k\<close> is the least multiple of \<open>k\<close> that is at least \<open>n\<close>.
\<close>

definition find_multiple :: "int \<Rightarrow> int \<Rightarrow> int" where
  "find_multiple n k = (if n mod k = 0 then n else n + k - n mod k)"

text \<open>
  \<open>TransformerArgs\<close>, with the fields that building the decoder and setting up its caches
  read, and \<open>__post_init__\<close> for them.  Python's \<open>//\<close> on integers is \<open>div\<close>, and raises
  on a zero divisor.
\<close>

record TransformerArgs =
  block_size :: int
  n_layers :: int
  n_heads :: int
  dim :: int
  n_local_heads :: int
  head_dim :: int
  rope_base :: real
  rope_scaling :: "(string \<rightharpoonup> real) option"
  use_hf_rope :: bool
  n_stages :: int
  stage_idx :: int

definition post_init :: "TransformerArgs \<Rightarrow> error + TransformerArgs" where
  "post_init self =
     (let self = (if n_local_heads self = - 1 then self\<lparr>n_local_heads := n_heads self\<rparr>
                  else self)
      in if n_heads self = 0 then Inl ZeroDivisionError
         else Inr (self\<lparr>head_dim := dim self div n_heads self\<rparr>))"

text \<open>
  A Python object that the code replaces by a new one is kept with its address: the
  number it got from the allocator, which hands out \<open>0, 1, 2, ...\<close>.  Two objects are the
  same object when their addresses are equal.  A function that allocates takes the next
  free address and returns the one after its allocations.
\<close>

type_synonym 'a obj = "nat \<times> 'a"

text \<open>
  \<open>Attention\<close>: the attributes that \<open>setup_cache\<close> reads and writes.  \<open>tp_degree\<close> exists
  only after \<open>distribute\<close>.  The address of the \<open>KVCache\<close> object stands for its two
  buffers as well: they are allocated in its constructor and only written in place.
\<close>

record Attention =
  attn_n_heads :: int
  attn_head_dim :: int
  attn_n_local_heads :: int
  attn_dim :: int
  tp_degree :: "int option"
  kv_cache :: "KVCache obj option"

definition Attention_init :: "TransformerArgs \<Rightarrow> error + Attention" where
  "Attention_init config =
     (if n_heads config = 0 then Inl ZeroDivisionError
      else if \<not> dim config mod n_heads config = 0 then Inl AssertionError
      else Inr \<lparr>attn_n_heads = n_heads config, attn_head_dim = head_dim config,
                attn_n_local_heads = n_local_heads config, attn_dim = dim config,
                tp_degree = None, kv_cache = None\<rparr>)"

definition setup_cache :: "nat \<Rightarrow> Attention \<Rightarrow> int \<Rightarrow> int \<Rightarrow> error + (nat \<times> Attention)" where
  "setup_cache next self max_batch_size max_seq_length =
     (case (case tp_degree self of
              None \<Rightarrow> Inr (attn_n_local_heads self)
            | Some d \<Rightarrow> if d = 0 then Inl ZeroDivisionError
                        else Inr (attn_n_local_heads self div d)) of
        Inl e \<Rightarrow> Inl e
      | Inr n_local_heads' \<Rightarrow>
          (case KVCache_init max_batch_size max_seq_length n_local_heads' (attn_head_dim self) of
             Inl e \<Rightarrow> Inl e
           | Inr cache \<Rightarrow> Inr (Suc next, self\<lparr>kv_cache := Some (next, cache)\<rparr>)))"

text \<open>
  \<open>Transformer\<close>: \<open>layers\<close> is the \<open>ModuleDict\<close> in insertion order, each block given by its
  layer id and its attention module (the only part of a block that the cache setup
  touches); the embedding, the norm and the output head are left out.  \<open>freqs_cis\<close> and
  \<open>causal_mask\<close> are absent until \<open>setup_caches\<close> registers them.
\<close>

datatype freqs_builder = native_freqs | hf_freqs

record Transformer =
  config :: TransformerArgs
  layers :: "(int \<times> Attention) list"
  max_batch_size :: int
  max_seq_length :: int
  precompute :: freqs_builder
  freqs_cis :: "real tensor obj option"
  causal_mask :: "bool tensor obj option"

fun new_blocks :: "TransformerArgs \<Rightarrow> int list \<Rightarrow> error + (int \<times> Attention) list" where
  "new_blocks config' [] = Inr []"
| "new_blocks config' (layer_id # ids) =
     (case Attention_init config' of
        Inl e \<Rightarrow> Inl e
      | Inr a \<Rightarrow> (case new_blocks config' ids of
                    Inl e \<Rightarrow> Inl e
                  | Inr bs \<Rightarrow> Inr ((layer_id, a) # bs)))"

definition Transformer_init :: "TransformerArgs \<Rightarrow> error + Transformer" where
  "Transformer_init config' =
     (if n_stages config' = 0 then Inl ZeroDivisionError
      else
        let layers_per_stage = n_layers config' div n_stages config' in
        case new_blocks config'
               [layers_per_stage * stage_idx config' ..
                layers_per_stage * (stage_idx config' + 1) - 1] of
          Inl e \<Rightarrow> Inl e
        | Inr bs \<Rightarrow>
            Inr \<lparr>config = config', layers = bs, max_batch_size = - 1, max_seq_length = - 1,
                 precompute = (if use_hf_rope config' then hf_freqs else native_freqs),
                 freqs_cis = None, causal_mask = None\<rparr>)"

text \<open>The loop of \<open>setup_caches\<close> over the blocks.\<close>

fun setup_layer_caches ::
  "nat \<Rightarrow> (int \<times> Attention) list \<Rightarrow> int \<Rightarrow> int \<Rightarrow> error + (nat \<times> (int \<times> Attention) list)" where
  "setup_layer_caches next [] max_batch_size' max_seq_length' = Inr (next, [])"
| "setup_layer_caches next ((layer_id, a) # bs) max_batch_size' max_seq_length' =
     (case setup_cache next a max_batch_size' max_seq_length' of
        Inl e \<Rightarrow> Inl e
      | Inr (next1, a1) \<Rightarrow>
          (case setup_layer_caches next1 bs max_batch_size' max_seq_length' of
             Inl e \<Rightarrow> Inl e
           | Inr (next2, bs1) \<Rightarrow> Inr (next2, (layer_id, a1) # bs1)))"

text \<open>\<^verbatim>\<open>torch.tril(torch.ones(n, n, dtype=torch.bool))\<close>.\<close>

definition tril_ones :: "int \<Rightarrow> error + bool tensor" where
  "tril_ones n =
     (if n < 0 then Inl RuntimeError
      else Inr \<lparr>shape = [nat n, nat n], elem = (\<lambda>idx. idx ! 1 \<le> idx ! 0)\<rparr>)"

definition call_precompute ::
  "freqs_builder \<Rightarrow> int \<Rightarrow> int \<Rightarrow> real \<Rightarrow> (string \<rightharpoonup> real) option \<Rightarrow> error + real tensor" where
  "call_precompute f n_elem seq_len base rs =
     (case f of
        native_freqs \<Rightarrow> precompute_freqs_cis n_elem seq_len base rs
      | hf_freqs \<Rightarrow> hf_precompute_freqs_cis n_elem seq_len base rs)"

text \<open>
  \<open>Transformer.setup_caches\<close>, from the next free address and the decoder to the next free
  address and the decoder after the call.  An exception leaves the decoder partly
  updated; the model keeps no state for a call that raises.
\<close>

definition setup_caches ::
  "nat \<Rightarrow> Transformer \<Rightarrow> int \<Rightarrow> int \<Rightarrow> error + (nat \<times> Transformer)" where
  "setup_caches next self max_batch_size' max_seq_length' =
     (if max_seq_length self \<ge> max_seq_length' \<and> max_batch_size self \<ge> max_batch_size'
      then Inr (next, self)
      else
        let max_seq_length' = find_multiple max_seq_length' 8 in
        case setup_layer_caches next (layers self) max_batch_size' max_seq_length' of
          Inl e \<Rightarrow> Inl e
        | Inr (next1, bs) \<Rightarrow>
            if n_heads (config self) = 0 then Inl ZeroDivisionError
            else
              (case call_precompute (precompute self)
                      (dim (config self) div n_heads (config self))
                      (block_size (config self) * 2) (rope_base (config self))
                      (rope_scaling (config self)) of
                 Inl e \<Rightarrow> Inl e
               | Inr table \<Rightarrow>
                   (case tril_ones max_seq_length' of
                      Inl e \<Rightarrow> Inl e
                    | Inr mask' \<Rightarrow>
                        Inr (next1 + 2,
                             self\<lparr>max_seq_length := max_seq_length',
                                  max_batch_size := max_batch_size',
                                  layers := bs,
                                  freqs_cis := Some (next1, table),
                                  causal_mask := Some (next1 + 1, mask')\<rparr>))))"

text \<open>Repeated calls of \<open>setup_caches\<close>, one per requested pair of sizes.\<close>

fun setup_caches_calls ::
  "nat \<Rightarrow> Transformer \<Rightarrow> (int \<times> int) list \<Rightarrow> error + (nat \<times> Transformer)" where
  "setup_caches_calls next self [] = Inr (next, self)"
| "setup_caches_calls next self ((b, s) # calls) =
     (case setup_caches next self b s of
        Inl e \<Rightarrow> Inl e
      | Inr (next1, self1) \<Rightarrow> setup_caches_calls next1 self1 calls)"

text \<open>The shape of the key buffer of every block's cache (empty where there is none).\<close>

definition cache_shapes :: "Transformer \<Rightarrow> nat list list" where
  "cache_shapes self =
     map (\<lambda>(layer_id, a). case kv_cache a of
                             None \<Rightarrow> []
                           | Some (addr, c) \<Rightarrow> shape (k_cache c)) (layers self)"

text \<open>
  A cache allocated at an address from \<open>lo\<close> up to \<open>hi\<close>, zero-filled, with batch capacity
  \<open>b\<close> and sequence capacity \<open>s\<close>.
\<close>

abbreviation fresh_cache :: "nat \<Rightarrow> nat \<Rightarrow> int \<Rightarrow> int \<Rightarrow> Attention \<Rightarrow> bool" where
  "fresh_cache lo hi b s a \<equiv>
     (\<exists>addr c. kv_cache a = Some (addr, c) \<and> lo \<le> addr \<and> addr < hi \<and> 0 \<le> b \<and> 0 \<le> s
           \<and> shape (k_cache c) ! 0 = nat b \<and> shape (k_cache c) ! 2 = nat s
           \<and> shape (v_cache c) ! 0 = nat b \<and> shape (v_cache c) ! 2 = nat s
           \<and> (\<forall>idx. elem (k_cache c) idx = 0 \<and> elem (v_cache c) idx = 0))"

text \<open>
  A decoder for the examples: two layers, width 64, four heads, as \<open>post_init\<close> and
  \<open>Transformer_init\<close> build it from \<open>example_args\<close>.
\<close>

definition example_args :: TransformerArgs where
  "example_args = \<lparr>block_size = 2048, n_layers = 2, n_heads = 4, dim = 64,
     n_local_heads = - 1, head_dim = 64, rope_base = 10000, rope_scaling = None,
     use_hf_rope = False, n_stages = 1, stage_idx = 0\<rparr>"

definition example_decoder :: Transformer where
  "example_decoder =
     (let a = \<lparr>attn_n_heads = 4, attn_head_dim = 16, attn_n_local_heads = 4, attn_dim = 64,
                tp_degree = None, kv_cache = None\<rparr>
      in \<lparr>config = example_args\<lparr>n_local_heads := 4, head_dim := 16\<rparr>,
          layers = [(0, a), (1, a)], max_batch_size = - 1, max_seq_length = - 1,
          precompute = native_freqs, freqs_cis = None, causal_mask = None\<rparr>)"

section \<open>Concatenation fusion (model.py, lines 59-165 and 561-573)\<close>

text \<open>All the multi-indices within a shape, in row-major order.\<close>

fun indices :: "nat list \<Rightarrow> nat list list" where
  "indices [] = [[]]"
| "indices (n # ns) = concat (map (\<lambda>i. map ((#) i) (indices ns)) [0 ..< n])"

text \<open>
  Calling an \<^verbatim>\<open>nn.Embedding\<close> with weight \<open>W\<close> of shape \<open>[V, D]\<close>: every index is replaced by
  its row of \<open>W\<close>; an index outside \<open>0..<V\<close> is an error.
\<close>

definition embedding :: "real tensor \<Rightarrow> int tensor \<Rightarrow> error + real tensor" where
  "embedding W tokens =
     (if list_ex (\<lambda>idx. elem tokens idx < 0 \<or> int (shape W ! 0) \<le> elem tokens idx)
           (indices (shape tokens))
      then Inl IndexError
      else Inr \<lparr>shape = shape tokens @ [shape W ! 1],
                elem = (\<lambda>idx. elem W [nat (elem tokens (butlast idx)), last idx])\<rparr>)"

text \<open>
  \<^verbatim>\<open>nn.Linear\<close> with a bias: the weight has shape \<open>[out_features, in_features]\<close>, and the last
  axis of the input must have size \<open>in_features\<close>.
\<close>

record Linear =
  weight :: "real tensor"
  bias :: "real tensor"

definition Linear_forward :: "Linear \<Rightarrow> real tensor \<Rightarrow> error + real tensor" where
  "Linear_forward self x =
     (if shape x = [] \<or> last (shape x) \<noteq> shape (weight self) ! 1 then Inl RuntimeError
      else Inr \<lparr>shape = butlast (shape x) @ [shape (weight self) ! 0],
                elem = (\<lambda>idx.
                  sum_list (map (\<lambda>j. elem x (butlast idx @ [j]) * elem (weight self) [last idx, j])
                              [0 ..< shape (weight self) ! 1])
                  + elem (bias self) [last idx])\<rparr>)"

text \<open>\<open>MultiModalProjector\<close>; the activation works on each element.\<close>

record MultiModalProjector =
  linear_1 :: Linear
  act :: "real \<Rightarrow> real"
  linear_2 :: Linear

definition MultiModalProjector_forward ::
  "MultiModalProjector \<Rightarrow> real tensor \<Rightarrow> error + real tensor" where
  "MultiModalProjector_forward self image_features =
     (case Linear_forward (linear_1 self) image_features of
        Inl e \<Rightarrow> Inl e
      | Inr hidden_states \<Rightarrow>
          Linear_forward (linear_2 self)
            (hidden_states\<lparr>elem := (\<lambda>idx. act self (elem hidden_states idx))\<rparr>))"

text \<open>
  \<^verbatim>\<open>torch.cat(tensors, dim=1)\<close>: tensors of shape \<open>[0]\<close> are skipped; the others must have
  the same number of axes, at least two, and the same sizes except along axis 1.
\<close>

fun cat_elem :: "'a tensor \<Rightarrow> 'a tensor list \<Rightarrow> nat list \<Rightarrow> 'a" where
  "cat_elem t [] idx = elem t idx"
| "cat_elem t (u # us) idx =
     (if idx ! 1 < shape t ! 1 then elem t idx
      else cat_elem u us (idx[1 := idx ! 1 - shape t ! 1]))"

definition cat_dim1 :: "'a tensor list \<Rightarrow> error + 'a tensor" where
  "cat_dim1 tensors =
     (case filter (\<lambda>t. shape t \<noteq> [0]) tensors of
        [] \<Rightarrow> (case tensors of [] \<Rightarrow> Inl RuntimeError | t # ts \<Rightarrow> Inr t)
      | t # ts \<Rightarrow>
          if length (shape t) < 2 then Inl IndexError
          else if list_ex (\<lambda>u. length (shape u) \<noteq> length (shape t)
                              \<or> (shape u)[1 := 0] \<noteq> (shape t)[1 := 0]) ts
          then Inl RuntimeError
          else Inr \<lparr>shape = (shape t)[1 := sum_list (map (\<lambda>u. shape u ! 1) (t # ts))],
                    elem = cat_elem t ts\<rparr>)"

text \<open>\<^verbatim>\<open>t.unsqueeze(0)\<close> and \<^verbatim>\<open>torch.arange(n)\<close>.\<close>

definition unsqueeze0 :: "'a tensor \<Rightarrow> 'a tensor" where
  "unsqueeze0 t = \<lparr>shape = 1 # shape t, elem = (\<lambda>idx. elem t (tl idx))\<rparr>"


text \<open>
  \<open>ConcateFusion\<close>.  The encoder and the decoder are arbitrary modules: the encoder gives
  a pair whose second component is a list of hidden states, the decoder takes the fused
  embeddings and the positions.  \<open>tok_embeddings\<close> is the weight of the embedding taken
  out of the decoder.
\<close>

record ConcateFusion =
  encoder :: "real tensor \<Rightarrow> error + (real tensor \<times> real tensor list)"
  decoder :: "real tensor \<Rightarrow> int tensor \<Rightarrow> error + real tensor"
  tok_embeddings :: "real tensor"
  mm_projector :: MultiModalProjector


text \<open>
  \<open>_get_decoder_input\<close> (a name cannot begin with an underscore here).  The embeddings
  are computed in the order of the source, and \<open>post_tokens\<close> without an encoder output
  fails the \<open>assert\<close>.
\<close>

definition get_decoder_input ::
  "ConcateFusion \<Rightarrow> int tensor \<Rightarrow> real tensor option \<Rightarrow> int tensor option \<Rightarrow>
   error + real tensor" where
  "get_decoder_input self tokens encoder_output post_tokens =
     (case encoder_output of
        None \<Rightarrow>
          if post_tokens \<noteq> None then Inl AssertionError
          else (case embedding (tok_embeddings self) tokens of
                  Inl e \<Rightarrow> Inl e
                | Inr emb \<Rightarrow> Inr (unsqueeze0 emb))
      | Some encoder_output \<Rightarrow>
          (case embedding (tok_embeddings self) tokens of
             Inl e \<Rightarrow> Inl e
           | Inr pre_img_embed \<Rightarrow>
               (case MultiModalProjector_forward (mm_projector self) encoder_output of
                  Inl e \<Rightarrow> Inl e
                | Inr image_embeds \<Rightarrow>
                    (case post_tokens of
                       None \<Rightarrow> cat_dim1 [pre_img_embed, image_embeds]
                     | Some post_tokens \<Rightarrow>
                         (case embedding (tok_embeddings self) post_tokens of
                            Inl e \<Rightarrow> Inl e
                          | Inr post_img_embed \<Rightarrow>
                              cat_dim1 [pre_img_embed, image_embeds, post_img_embed])))))"





text \<open>
  A fusion module for the examples: an encoder that gives one hidden state of 577
  positions and width 3, a decoder that gives logits over a vocabulary of 5 for every
  position of its input, an embedding of 4 tokens of width 2, and a projector from
  width 3 to width 2.  The token tensors have 30 and 20 tokens in a batch of one.
\<close>

definition example_fusion :: ConcateFusion where
  "example_fusion =
     \<lparr>encoder = (\<lambda>image. Inr (image, [\<lparr>shape = [1, 1, 1, 577, 3],
                                         elem = (\<lambda>idx. 1)\<rparr>])),
      decoder = (\<lambda>x input_pos. Inr \<lparr>shape = [shape x ! 0, shape x ! 1, 5],
                                      elem = (\<lambda>idx. 0)\<rparr>),
      tok_embeddings = \<lparr>shape = [4, 2], elem = (\<lambda>idx. real (10 * idx ! 0 + idx ! 1))\<rparr>,
      mm_projector =
        \<lparr>linear_1 = \<lparr>weight = \<lparr>shape = [2, 3], elem = (\<lambda>idx. 1)\<rparr>,
                      bias = \<lparr>shape = [2], elem = (\<lambda>idx. 0)\<rparr>\<rparr>,
         act = (\<lambda>x. x),
         linear_2 = \<lparr>weight = \<lparr>shape = [2, 2],
                                 elem = (\<lambda>idx. if idx ! 0 = idx ! 1 then 1 else 0)\<rparr>,
                      bias = \<lparr>shape = [2], elem = (\<lambda>idx. 0)\<rparr>\<rparr>\<rparr>\<rparr>"

definition example_pre_tokens :: "int tensor" where
  "example_pre_tokens = \<lparr>shape = [1, 30], elem = (\<lambda>idx. 1)\<rparr>"

definition example_post_tokens :: "int tensor" where
  "example_post_tokens = \<lparr>shape = [1, 20], elem = (\<lambda>idx. 2)\<rparr>"


definition example_features :: "real tensor" where
  "example_features = \<lparr>shape = [1, 576, 3], elem = (\<lambda>idx. 1)\<rparr>"

section \<open>Cache update\<close>









section \<open>Recipe lookup\<close>

text \<open>
  C6.  \<open>get_recipe\<close> returns a recipe for each of the four members of \<open>ModelType\<close>, namely
  the one declared for it (its own type tag, its module dictionary and its fusion class),
  and raises \<open>ValueError\<close> (the specification's configuration error) for every value
  that is not one of the four members.
\<close>

theorem get_recipe_total_exhaustive:
  "get_recipe (Member TextOnly) =
     Inr \<lparr>model_type = TextOnly, modules = [(''text'', Transformer_class)],
          fusion_class = identity_function\<rparr>
   \<and> get_recipe (Member Llama3_1) =
     Inr \<lparr>model_type = Llama3_1, modules = [(''text'', llama3_1_builder)],
          fusion_class = identity_function\<rparr>
   \<and> get_recipe (Member Flamingo) =
     Inr \<lparr>model_type = Flamingo,
          modules = [(''encoder'', flamingo_vision_encoder), (''decoder'', flamingo_decoder)],
          fusion_class = DeepFusionModel\<rparr>
   \<and> get_recipe (Member Llava) =
     Inr \<lparr>model_type = Llava,
          modules = [(''encoder'', clip_vision_encoder), (''decoder'', Transformer_class)],
          fusion_class = ConcateFusion_class\<rparr>
   \<and> (\<forall>t. \<exists>r. get_recipe (Member t) = Inr r \<and> model_type r = t)
   \<and> (\<forall>v. get_recipe (NonMember v) = Inl ValueError)"
proof -
  have "\<exists>r. get_recipe (Member t) = Inr r \<and> model_type r = t" for t
    by (cases t) (simp_all add: text_only_def llama3_1_def flamingo_def llava_def)
  then show ?thesis
    by (simp add: text_only_def llama3_1_def flamingo_def llava_def)
qed

section \<open>Identity fusion\<close>

text \<open>
  C10.  \<open>identity\<close> called with exactly one keyword argument returns that argument's
  value; called with any other number of keyword arguments it raises \<open>ValueError\<close>.
  Hence a fusion call through \<open>identity\<close> that returns must have received exactly one
  named module, which it returns, and \<open>build_model\<close> for the TextOnly and the Llama3_1
  recipe returns the single module built under the name \<open>text\<close>.
\<close>

theorem identity_exactly_one_kwarg:
  fixes kwargs :: "(string \<times> 'm) list"
  shows "identity [(name, m)] = Inr m
   \<and> (length kwargs \<noteq> 1 \<longrightarrow> identity kwargs = Inl ValueError)
   \<and> (call_fusion_class call_fusion identity_function kwargs = Inr m
        \<longrightarrow> kwargs = [(fst (hd kwargs), m)])
   \<and> (targs ''text'' = Some p \<and> new_Transformer p = Inr m \<longrightarrow>
        build_model new_Transformer call_builder call_fusion
          \<lparr>args_model_type = TextOnly, transformer_args = targs\<rparr> = Inr m)
   \<and> (targs ''text'' = Some p \<and> call_builder llama3_1_builder p = Inr m \<longrightarrow>
        build_model new_Transformer call_builder call_fusion
          \<lparr>args_model_type = Llama3_1, transformer_args = targs\<rparr> = Inr m)"
proof -
  have one: "identity [(name, m)] = Inr m"
    by (simp add: identity_def)
  have other: "length kwargs \<noteq> 1 \<longrightarrow> identity kwargs = Inl ValueError"
    by (simp add: identity_def)
  have single: "kwargs = [(fst (hd kwargs), m)]" if "identity kwargs = Inr m"
  proof (cases kwargs)
    case Nil
    with that show ?thesis by (simp add: identity_def)
  next
    case (Cons kv rest)
    with that have "rest = []" "snd kv = m"
      by (auto simp: identity_def split: if_splits)
    with Cons show ?thesis by (cases kv) simp
  qed
  have fusion: "call_fusion_class call_fusion identity_function kwargs = Inr m
      \<longrightarrow> kwargs = [(fst (hd kwargs), m)]"
    using single by (simp add: call_fusion_class_def)
  have textonly: "targs ''text'' = Some p \<and> new_Transformer p = Inr m \<longrightarrow>
      build_model new_Transformer call_builder call_fusion
        \<lparr>args_model_type = TextOnly, transformer_args = targs\<rparr> = Inr m"
    by (simp add: build_model_def text_only_def call_fusion_class_def identity_def)
  have llama: "targs ''text'' = Some p \<and> call_builder llama3_1_builder p = Inr m \<longrightarrow>
      build_model new_Transformer call_builder call_fusion
        \<lparr>args_model_type = Llama3_1, transformer_args = targs\<rparr> = Inr m"
    by (simp add: build_model_def llama3_1_def call_fusion_class_def identity_def)
  from one other fusion textonly llama show ?thesis by blast
qed

theorem identity_exactly_one_kwarg_witness:
  "identity [(''text'', 7::nat)] = Inr 7
   \<and> identity [(''encoder'', 1::nat), (''decoder'', 2)] = Inl ValueError
   \<and> identity ([] :: (string \<times> nat) list) = Inl ValueError
   \<and> call_fusion_class (\<lambda>f kw. Inl TypeError) identity_function [(''text'', 7::nat)] = Inr 7
   \<and> build_model (\<lambda>p. Inr (Suc p)) (\<lambda>c p. Inl TypeError) (\<lambda>f kw. Inl TypeError)
        \<lparr>args_model_type = TextOnly, transformer_args = [''text'' \<mapsto> 6]\<rparr> = Inr (7::nat)
   \<and> build_model (\<lambda>p. Inl TypeError) (\<lambda>c p. Inr (p + 2)) (\<lambda>f kw. Inl TypeError)
        \<lparr>args_model_type = Llama3_1, transformer_args = [''text'' \<mapsto> 5]\<rparr> = Inr (7::nat)"
proof -
  note a = identity_exactly_one_kwarg
    [of "''text''" "7::nat" "[(''encoder'', 1::nat), (''decoder'', 2)]"
        "\<lambda>f kw. Inl TypeError" "[''text'' \<mapsto> 6]" "6::nat" "\<lambda>p. Inr (Suc p)"
        "\<lambda>c p. Inl TypeError"]
  note b = identity_exactly_one_kwarg
    [of "''text''" "7::nat" "[]"
        "\<lambda>f kw. Inl TypeError" "[''text'' \<mapsto> 5]" "5::nat" "\<lambda>p. Inl TypeError"
        "\<lambda>c p. Inr (p + 2)"]
  note c = identity_exactly_one_kwarg
    [of "''text''" "7::nat" "[(''text'', 7::nat)]"
        "\<lambda>f kw. Inl TypeError" "[''text'' \<mapsto> 5]" "5::nat" "\<lambda>p. Inl TypeError"
        "\<lambda>c p. Inr (p + 2)"]
  have 1: "identity [(''text'', 7::nat)] = Inr 7" using a by simp
  have 2: "identity [(''encoder'', 1::nat), (''decoder'', 2)] = Inl ValueError"
    using a by simp
  have 3: "identity ([] :: (string \<times> nat) list) = Inl ValueError" using b by simp
  have 4: "call_fusion_class (\<lambda>f kw. Inl TypeError) identity_function [(''text'', 7::nat)]
      = Inr 7"
    using c by (simp add: call_fusion_class_def)
  have 5: "build_model (\<lambda>p. Inr (Suc p)) (\<lambda>c p. Inl TypeError) (\<lambda>f kw. Inl TypeError)
        \<lparr>args_model_type = TextOnly, transformer_args = [''text'' \<mapsto> 6]\<rparr> = Inr (7::nat)"
    using a by simp
  have 6: "build_model (\<lambda>p. Inl TypeError) (\<lambda>c p. Inr (p + 2)) (\<lambda>f kw. Inl TypeError)
        \<lparr>args_model_type = Llama3_1, transformer_args = [''text'' \<mapsto> 5]\<rparr> = Inr (7::nat)"
    using b by simp
  from 1 2 3 4 5 6 show ?thesis by (intro conjI)
qed

section \<open>Cache setup of the decoder\<close>

lemma find_multiple_ge: "0 < k \<Longrightarrow> n \<le> find_multiple n k"
proof -
  assume "0 < k"
  then have "n mod k < k" by simp
  then show ?thesis by (simp add: find_multiple_def)
qed

lemma find_multiple_dvd: "k dvd find_multiple n k"
proof (cases "n mod k = 0")
  case True
  then show ?thesis by (simp add: find_multiple_def dvd_eq_mod_eq_0)
next
  case False
  have "(n + k - n mod k) mod k = (n - n mod k) mod k"
    by (metis add.commute add_diff_eq mod_add_self1)
  also have "\<dots> = 0" by (simp add: minus_mod_eq_mult_div)
  finally show ?thesis using False by (simp add: find_multiple_def dvd_eq_mod_eq_0)
qed

lemma find_multiple_lt: "0 < k \<Longrightarrow> find_multiple n k < n + k"
proof -
  assume k: "0 < k"
  then have "0 \<le> n mod k" by simp
  moreover have "n mod k \<noteq> 0 \<Longrightarrow> 0 < n mod k" using calculation by linarith
  ultimately show ?thesis using k by (auto simp: find_multiple_def)
qed

lemma setup_cache_Inr:
  assumes "setup_cache next a b s = Inr (next', a')"
  shows "next' = Suc next"
    and "\<exists>c. kv_cache a' = Some (next, c) \<and> 0 \<le> b \<and> 0 \<le> s
           \<and> shape (k_cache c) ! 0 = nat b \<and> shape (k_cache c) ! 2 = nat s
           \<and> shape (v_cache c) ! 0 = nat b \<and> shape (v_cache c) ! 2 = nat s
           \<and> (\<forall>idx. elem (k_cache c) idx = 0 \<and> elem (v_cache c) idx = 0)"
  using assms
  by (auto simp: setup_cache_def KVCache_init_def torch_zeros_def Let_def
           split: option.splits sum.splits if_splits)

lemma fresh_cache_mono: "fresh_cache lo hi b s a \<Longrightarrow> lo' \<le> lo \<Longrightarrow> hi \<le> hi' \<Longrightarrow> fresh_cache lo' hi' b s a"
  by fastforce

lemma setup_layer_caches_Inr:
  "setup_layer_caches next bs b s = Inr (next', bs') \<Longrightarrow>
     next' = next + length bs \<and> map fst bs' = map fst bs
     \<and> (\<forall>(i, a) \<in> set bs'. fresh_cache next next' b s a)"
proof (induction bs arbitrary: "next" next' bs')
  case Nil
  then show ?case by simp
next
  case (Cons x bs)
  obtain i a where x: "x = (i, a)" by (cases x)
  from Cons.prems x obtain n1 a1 n2 bs1 where
    1: "setup_cache next a b s = Inr (n1, a1)"
    and 2: "setup_layer_caches n1 bs b s = Inr (n2, bs1)"
    and 3: "next' = n2" "bs' = (i, a1) # bs1"
    by (auto split: sum.splits)
  note c = setup_cache_Inr [OF 1]
  note ih = Cons.IH [OF 2]
  have "fresh_cache next next' b s a1"
    using c ih 3 by auto
  moreover have "\<forall>(j, a') \<in> set bs1. fresh_cache next next' b s a'"
    using ih c(1) 3 by (auto intro: fresh_cache_mono)
  ultimately show ?case using ih c(1) 3 x by auto
qed

lemma setup_caches_covered:
  "s \<le> max_seq_length self \<Longrightarrow> b \<le> max_batch_size self \<Longrightarrow>
   setup_caches next self b s = Inr (next, self)"
  by (simp add: setup_caches_def)

lemma setup_caches_realloc:
  assumes "setup_caches next self b s = Inr (next', self')"
    and "\<not> (s \<le> max_seq_length self \<and> b \<le> max_batch_size self)"
  shows "max_batch_size self' = b" "max_seq_length self' = find_multiple s 8"
    "\<exists>n1. setup_layer_caches next (layers self) b (find_multiple s 8) = Inr (n1, layers self')
       \<and> next' = n1 + 2 \<and> (\<exists>t. freqs_cis self' = Some (n1, t))
       \<and> (\<exists>m. causal_mask self' = Some (n1 + 1, m))"
  using assms
  by (auto simp: setup_caches_def Let_def split: sum.splits if_splits)

text \<open>
  C2.  After a call \<open>setup_caches(b1, s1)\<close> that returns, from any state of the decoder, a
  second call \<open>setup_caches(b2, s2)\<close> with \<open>b2 \<le> b1\<close> and \<open>s2 \<le> s1\<close> returns the decoder
  as it is and allocates nothing: the caches of all layers, the rotary table and the
  causal mask keep their addresses and contents, and \<open>max_batch_size\<close> and
  \<open>max_seq_length\<close> keep their values.
\<close>

theorem setup_caches_twice_noop:
  assumes "setup_caches next self b1 s1 = Inr (next1, self1)" and "b2 \<le> b1" and "s2 \<le> s1"
  shows "setup_caches next1 self1 b2 s2 = Inr (next1, self1)"
proof (cases "s1 \<le> max_seq_length self \<and> b1 \<le> max_batch_size self")
  case True
  with assms(1) have "self1 = self" by (simp add: setup_caches_def)
  with True assms(2,3) show ?thesis by (intro setup_caches_covered) auto
next
  case False
  note r = setup_caches_realloc(1,2) [OF assms(1) False]
  have "s1 \<le> find_multiple s1 8" by (rule find_multiple_ge) simp
  with r assms(2,3) show ?thesis by (intro setup_caches_covered) auto
qed

text \<open>
  C3, as amended.  After a call \<open>setup_caches(b, s)\<close> that returns, the stored capacity
  covers the request in both dimensions.  If the capacity before the call covered the
  request in both dimensions, nothing is allocated and the decoder is unchanged.
  Otherwise the capacity becomes exactly \<open>b\<close> and \<open>s\<close> rounded up to a multiple of 8,
  whatever it was before, and every layer gets a newly allocated, zero-filled cache of
  that batch and sequence capacity.
\<close>

theorem setup_caches_capacity:
  assumes "setup_caches next self b s = Inr (next', self')"
  shows "b \<le> max_batch_size self' \<and> s \<le> max_seq_length self'
    \<and> (s \<le> max_seq_length self \<and> b \<le> max_batch_size self \<longrightarrow> next' = next \<and> self' = self)
    \<and> (\<not> (s \<le> max_seq_length self \<and> b \<le> max_batch_size self) \<longrightarrow>
          max_batch_size self' = b \<and> max_seq_length self' = find_multiple s 8
        \<and> map fst (layers self') = map fst (layers self)
        \<and> (\<forall>(layer_id, a) \<in> set (layers self').
              \<exists>addr c. kv_cache a = Some (addr, c) \<and> next \<le> addr \<and> addr < next'
                \<and> shape (k_cache c) ! 0 = nat b \<and> shape (v_cache c) ! 0 = nat b
                \<and> shape (k_cache c) ! 2 = nat (find_multiple s 8)
                \<and> shape (v_cache c) ! 2 = nat (find_multiple s 8)
                \<and> (\<forall>idx. elem (k_cache c) idx = 0 \<and> elem (v_cache c) idx = 0)))"
proof (cases "s \<le> max_seq_length self \<and> b \<le> max_batch_size self")
  case True
  with assms show ?thesis by (simp add: setup_caches_def)
next
  case False
  note r = setup_caches_realloc [OF assms False]
  from r(3) obtain n1 where
    l: "setup_layer_caches next (layers self) b (find_multiple s 8) = Inr (n1, layers self')"
    and n: "next' = n1 + 2" by blast
  note f = setup_layer_caches_Inr [OF l]
  have ge: "s \<le> find_multiple s 8" by (rule find_multiple_ge) simp
  have caches: "\<forall>(layer_id, a) \<in> set (layers self').
              \<exists>addr c. kv_cache a = Some (addr, c) \<and> next \<le> addr \<and> addr < next'
                \<and> shape (k_cache c) ! 0 = nat b \<and> shape (v_cache c) ! 0 = nat b
                \<and> shape (k_cache c) ! 2 = nat (find_multiple s 8)
                \<and> shape (v_cache c) ! 2 = nat (find_multiple s 8)
                \<and> (\<forall>idx. elem (k_cache c) idx = 0 \<and> elem (v_cache c) idx = 0)"
    using f n by fastforce
  have ids: "map fst (layers self') = map fst (layers self)"
    using f by simp
  have cover: "b \<le> max_batch_size self'" "s \<le> max_seq_length self'"
    using r(1,2) ge by simp_all
  show ?thesis
  proof (intro conjI impI)
    assume "s \<le> max_seq_length self \<and> b \<le> max_batch_size self"
    with False show "next' = next" "self' = self" by blast+
  qed (use cover r(1,2) ids caches in blast)+
qed

lemma example_decoder_built:
  "post_init example_args = Inr (example_args\<lparr>n_local_heads := 4, head_dim := 16\<rparr>)"
  "Transformer_init (example_args\<lparr>n_local_heads := 4, head_dim := 16\<rparr>) = Inr example_decoder"
  by (simp_all add: post_init_def example_args_def Transformer_init_def Attention_init_def
        example_decoder_def Let_def upto.simps)

lemmas setup_caches_eval =
  setup_caches_def example_decoder_def example_args_def Let_def find_multiple_def
  setup_cache_def KVCache_init_def torch_zeros_def call_precompute_def
  precompute_freqs_cis_def tril_ones_def cache_shapes_def

theorem setup_caches_twice_noop_witness:
  "\<exists>n T. setup_caches 0 example_decoder 2 10 = Inr (n, T)
     \<and> setup_caches n T 1 5 = Inr (n, T)
     \<and> max_batch_size T = 2 \<and> max_seq_length T = 16"
proof -
  obtain n T where first: "setup_caches 0 example_decoder 2 10 = Inr (n, T)"
    and cap: "max_batch_size T = 2" "max_seq_length T = 16"
    by (simp add: setup_caches_eval)
  have "setup_caches n T 1 5 = Inr (n, T)"
    by (rule setup_caches_twice_noop [OF first]) simp_all
  with first cap show ?thesis by blast
qed

text \<open>
  C3 as stated fails: on the example decoder, \<open>setup_caches(2, 8)\<close> followed by
  \<open>setup_caches(1, 16)\<close> leaves batch capacity 1 in the decoder and in every layer's
  cache, below the 2 requested first.
\<close>

theorem setup_caches_shrinks_batch:
  "post_init example_args = Inr (example_args\<lparr>n_local_heads := 4, head_dim := 16\<rparr>)
   \<and> Transformer_init (example_args\<lparr>n_local_heads := 4, head_dim := 16\<rparr>) = Inr example_decoder
   \<and> (case setup_caches_calls 0 example_decoder [(2, 8)] of
        Inl e \<Rightarrow> False
      | Inr (n, T) \<Rightarrow> max_batch_size T = 2 \<and> max_seq_length T = 8
          \<and> cache_shapes T = [[2, 4, 8, 16], [2, 4, 8, 16]])
   \<and> (case setup_caches_calls 0 example_decoder [(2, 8), (1, 16)] of
        Inl e \<Rightarrow> False
      | Inr (n, T) \<Rightarrow> max_batch_size T = 1 \<and> max_seq_length T = 16
          \<and> cache_shapes T = [[1, 4, 16, 16], [1, 4, 16, 16]]
          \<and> \<not> 2 \<le> max_batch_size T)"
  by (simp add: example_decoder_built) (simp add: setup_caches_eval)

theorem setup_caches_capacity_witness:
  "\<exists>n T n' T'. setup_caches 0 example_decoder 2 8 = Inr (n, T)
     \<and> setup_caches n T 1 16 = Inr (n', T')
     \<and> setup_caches n' T' 1 12 = Inr (n', T')
     \<and> 2 \<le> max_batch_size T \<and> 8 \<le> max_seq_length T
     \<and> max_batch_size T' = 1 \<and> max_seq_length T' = 16
     \<and> cache_shapes T' = [[1, 4, 16, 16], [1, 4, 16, 16]]"
proof -
  obtain n T where first: "setup_caches 0 example_decoder 2 8 = Inr (n, T)"
    and cap: "max_batch_size T = 2" "max_seq_length T = 8"
    by (simp add: setup_caches_eval)
  obtain n' T' where second: "setup_caches n T 1 16 = Inr (n', T')"
    and shapes: "cache_shapes T' = [[1, 4, 16, 16], [1, 4, 16, 16]]"
    using first by (auto simp: setup_caches_eval)
  note c1 = setup_caches_capacity [OF first]
  note c2 = setup_caches_capacity [OF second]
  have a: "2 \<le> max_batch_size T" "8 \<le> max_seq_length T"
    using c1 by blast+
  have b: "max_batch_size T' = 1 \<and> max_seq_length T' = 16"
    using c2 cap by (simp add: find_multiple_def)
  obtain n'' T'' where third: "setup_caches n' T' 1 12 = Inr (n'', T'')"
    using b by (simp add: setup_caches_def)
  have "n'' = n' \<and> T'' = T'"
    using setup_caches_capacity [OF third] b by simp
  with third have c: "setup_caches n' T' 1 12 = Inr (n', T')" by simp
  from first second c a b shapes show ?thesis by blast
qed

section \<open>Rope scaling\<close>


lemma scale_freq_first_match:
  "scale_freq sf lo hi old f =
     (if 2 * pi / f < old / hi then Inr f
      else if old / lo < 2 * pi / f then Inr (f / sf)
      else if old / lo = old / hi then Inl AssertionError
      else Inr ((1 - (old / (2 * pi / f) - lo) / (hi - lo)) * f / sf
               + (old / (2 * pi / f) - lo) / (hi - lo) * f))"
  unfolding scale_freq_def Let_def not_not by (rule refl)

lemma scale_freq_Inl: "scale_freq sf lo hi old f = Inl e \<Longrightarrow> e = AssertionError"
  unfolding scale_freq_first_match by (simp split: if_splits)

lemma scale_freqs_Inl: "scale_freqs sf lo hi old freqs = Inl e \<Longrightarrow> e = AssertionError"
  by (induction freqs arbitrary: e) (auto split: sum.splits dest: scale_freq_Inl)

lemma scale_freqs_assert:
  assumes "f \<in> set freqs" "scale_freq sf lo hi old f = Inl AssertionError"
  shows "scale_freqs sf lo hi old freqs = Inl AssertionError"
  using assms
proof (induction freqs)
  case Nil
  then show ?case by simp
next
  case (Cons g gs)
  show ?case
  proof (cases "scale_freq sf lo hi old g")
    case (Inl e)
    then show ?thesis using scale_freq_Inl [OF Inl] by simp
  next
    case (Inr y)
    with Cons have "scale_freqs sf lo hi old gs = Inl AssertionError" by auto
    with Inr show ?thesis by simp
  qed
qed

lemma scale_freqs_map:
  assumes "\<And>f. f \<in> set freqs \<Longrightarrow> scale_freq sf lo hi old f = Inr (g f)"
  shows "scale_freqs sf lo hi old freqs = Inr (map g freqs)"
  using assms by (induction freqs) simp_all

lemma apply_scaling_missing:
  assumes "key \<in> set required_keys" "rs key = None"
  shows "apply_scaling freqs rs = Inl ValueError"
proof -
  have "\<not> list_all (\<lambda>key. rs key \<noteq> None) required_keys"
    using assms by (auto simp: list_all_iff)
  then show ?thesis by (simp add: apply_scaling_def)
qed

lemma apply_scaling_zero_factor:
  assumes "rs ''factor'' = Some sf" "rs ''low_freq_factor'' = Some lo"
    "rs ''high_freq_factor'' = Some hi" "rs ''original_max_position_embeddings'' = Some old"
    "lo = 0 \<or> hi = 0"
  shows "apply_scaling freqs rs = Inl ZeroDivisionError"
  using assms by (auto simp: apply_scaling_def required_keys_def)

lemma apply_scaling_present:
  assumes "rs ''factor'' = Some sf" "rs ''low_freq_factor'' = Some lo"
    "rs ''high_freq_factor'' = Some hi" "rs ''original_max_position_embeddings'' = Some old"
    "lo \<noteq> 0" "hi \<noteq> 0"
  shows "apply_scaling freqs rs = scale_freqs sf lo hi old freqs"
  using assms by (simp add: apply_scaling_def required_keys_def)

lemma scale_freqs_bands:
  assumes "\<not> (old / hi = old / lo \<and> (\<exists>f \<in> set freqs. 2 * pi / f = old / lo))"
  shows "\<exists>out. scale_freqs sf lo hi old freqs = Inr out \<and> length out = length freqs
        \<and> (\<forall>i < length freqs.
             (2 * pi / (freqs ! i) < old / hi \<longrightarrow> out ! i = freqs ! i)
           \<and> (\<not> 2 * pi / (freqs ! i) < old / hi \<and> old / lo < 2 * pi / (freqs ! i) \<longrightarrow>
                out ! i = freqs ! i / sf)
           \<and> (old / hi \<le> 2 * pi / (freqs ! i) \<and> 2 * pi / (freqs ! i) \<le> old / lo \<longrightarrow>
                (\<exists>smooth. smooth = (old / (2 * pi / (freqs ! i)) - lo) / (hi - lo)
                   \<and> out ! i = (1 - smooth) * (freqs ! i) / sf + smooth * (freqs ! i))))"
proof -
  let ?g = "\<lambda>f. if 2 * pi / f < old / hi then f
          else if old / lo < 2 * pi / f then f / sf
          else (1 - (old / (2 * pi / f) - lo) / (hi - lo)) * f / sf
               + (old / (2 * pi / f) - lo) / (hi - lo) * f"
  have one: "scale_freq sf lo hi old f = Inr (?g f)" if "f \<in> set freqs" for f
  proof -
    have "\<not> (old / lo = old / hi \<and> \<not> 2 * pi / f < old / hi \<and> \<not> old / lo < 2 * pi / f)"
      using assms that by force
    then show ?thesis unfolding scale_freq_first_match by auto
  qed
  have eq: "scale_freqs sf lo hi old freqs = Inr (map ?g freqs)"
    by (rule scale_freqs_map) (rule one)
  show ?thesis
  proof (intro exI conjI allI impI)
    show "scale_freqs sf lo hi old freqs = Inr (map ?g freqs)" by (rule eq)
    show "length (map ?g freqs) = length freqs" by simp
  next
    fix i assume "i < length freqs" "2 * pi / (freqs ! i) < old / hi"
    then show "map ?g freqs ! i = freqs ! i" by simp
  next
    fix i assume "i < length freqs"
      "\<not> 2 * pi / (freqs ! i) < old / hi \<and> old / lo < 2 * pi / (freqs ! i)"
    then show "map ?g freqs ! i = freqs ! i / sf" by simp
  next
    fix i assume i: "i < length freqs"
      and m: "old / hi \<le> 2 * pi / (freqs ! i) \<and> 2 * pi / (freqs ! i) \<le> old / lo"
    show "(old / (2 * pi / (freqs ! i)) - lo) / (hi - lo)
        = (old / (2 * pi / (freqs ! i)) - lo) / (hi - lo)" by (rule refl)
    from i m show "map ?g freqs ! i =
        (1 - (old / (2 * pi / (freqs ! i)) - lo) / (hi - lo)) * (freqs ! i) / sf
        + (old / (2 * pi / (freqs ! i)) - lo) / (hi - lo) * (freqs ! i)" by simp
  qed
qed

lemma llama_scaling_keys:
  "llama_scaling ''factor'' = Some 8" "llama_scaling ''low_freq_factor'' = Some 1"
  "llama_scaling ''high_freq_factor'' = Some 4"
  "llama_scaling ''original_max_position_embeddings'' = Some 8192"
  by (simp_all add: llama_scaling_def)

lemma inverted_scaling_keys:
  "inverted_scaling ''factor'' = Some 8" "inverted_scaling ''low_freq_factor'' = Some 4"
  "inverted_scaling ''high_freq_factor'' = Some 1"
  "inverted_scaling ''original_max_position_embeddings'' = Some 8192"
  by (simp_all add: inverted_scaling_def)

lemma zero_low_scaling_keys:
  "zero_low_scaling ''factor'' = Some 8" "zero_low_scaling ''low_freq_factor'' = Some 0"
  "zero_low_scaling ''high_freq_factor'' = Some 4"
  "zero_low_scaling ''original_max_position_embeddings'' = Some 8192"
  by (simp_all add: zero_low_scaling_def)

lemma apply_scaling_single:
  assumes "rs ''factor'' = Some sf" "rs ''low_freq_factor'' = Some lo"
    "rs ''high_freq_factor'' = Some hi" "rs ''original_max_position_embeddings'' = Some old"
    "lo \<noteq> 0" "hi \<noteq> 0"
  shows "apply_scaling [f] rs =
     (case scale_freq sf lo hi old f of Inl e \<Rightarrow> Inl e | Inr g \<Rightarrow> Inr [g])"
  by (simp add: apply_scaling_present [OF assms] split: sum.splits)

text \<open>
  C4, as amended.  \<open>apply_scaling\<close> raises \<open>ValueError\<close> (the specification's configuration
  error) when one of the four required keys is missing.  When they are all there:
  a zero \<open>low_freq_factor\<close> or \<open>high_freq_factor\<close> raises \<open>ZeroDivisionError\<close>; with non-zero
  frequencies, equal thresholds and a frequency whose wavelength is exactly the threshold
  fail the assertion; otherwise, with a non-zero \<open>factor\<close>, one frequency is returned for
  each base frequency, by the first test that holds among: the frequency itself when its
  wavelength is below \<open>old_context_len / high_freq_factor\<close>; the frequency divided by
  \<open>factor\<close> when its wavelength is above \<open>old_context_len / low_freq_factor\<close>; and
  \<open>(1 - smooth) * f / factor + smooth * f\<close> in between, where \<open>smooth\<close> is
  \<open>(old_context_len / wavelen - low_freq_factor) / (high_freq_factor - low_freq_factor)\<close>.
  The second clause applies only when the first test has failed: a wavelength above the
  long-wavelength threshold and below the short-wavelength one is passed through.
\<close>

theorem apply_scaling_bands:
  fixes rs :: "string \<rightharpoonup> real"
  shows "(key \<in> set required_keys \<and> rs key = None \<longrightarrow> apply_scaling freqs rs = Inl ValueError)
   \<and> (rs ''factor'' = Some factor \<and> rs ''low_freq_factor'' = Some low_freq_factor
      \<and> rs ''high_freq_factor'' = Some high_freq_factor
      \<and> rs ''original_max_position_embeddings'' = Some old_context_len \<longrightarrow>
      (low_freq_factor = 0 \<or> high_freq_factor = 0 \<longrightarrow>
         apply_scaling freqs rs = Inl ZeroDivisionError)
    \<and> (low_freq_factor \<noteq> 0 \<and> high_freq_factor \<noteq> 0 \<and> 0 \<notin> set freqs
        \<and> old_context_len / high_freq_factor = old_context_len / low_freq_factor
        \<and> (\<exists>f \<in> set freqs. 2 * pi / f = old_context_len / low_freq_factor) \<longrightarrow>
         apply_scaling freqs rs = Inl AssertionError)
    \<and> (low_freq_factor \<noteq> 0 \<and> high_freq_factor \<noteq> 0 \<and> factor \<noteq> 0 \<and> 0 \<notin> set freqs
        \<and> \<not> (old_context_len / high_freq_factor = old_context_len / low_freq_factor
             \<and> (\<exists>f \<in> set freqs. 2 * pi / f = old_context_len / low_freq_factor)) \<longrightarrow>
      (\<exists>out. apply_scaling freqs rs = Inr out \<and> length out = length freqs
        \<and> (\<forall>i < length freqs.
             (2 * pi / (freqs ! i) < old_context_len / high_freq_factor \<longrightarrow>
                out ! i = freqs ! i)
           \<and> (\<not> 2 * pi / (freqs ! i) < old_context_len / high_freq_factor
              \<and> old_context_len / low_freq_factor < 2 * pi / (freqs ! i) \<longrightarrow>
                out ! i = freqs ! i / factor)
           \<and> (old_context_len / high_freq_factor \<le> 2 * pi / (freqs ! i)
              \<and> 2 * pi / (freqs ! i) \<le> old_context_len / low_freq_factor \<longrightarrow>
                (\<exists>smooth. smooth = (old_context_len / (2 * pi / (freqs ! i)) - low_freq_factor)
                                   / (high_freq_factor - low_freq_factor)
                   \<and> out ! i = (1 - smooth) * (freqs ! i) / factor
                             + smooth * (freqs ! i)))))))"
proof (intro conjI impI)
  assume "key \<in> set required_keys \<and> rs key = None"
  then show "apply_scaling freqs rs = Inl ValueError"
    using apply_scaling_missing by blast
next
  assume k: "rs ''factor'' = Some factor \<and> rs ''low_freq_factor'' = Some low_freq_factor
      \<and> rs ''high_freq_factor'' = Some high_freq_factor
      \<and> rs ''original_max_position_embeddings'' = Some old_context_len"
    and "low_freq_factor = 0 \<or> high_freq_factor = 0"
  then show "apply_scaling freqs rs = Inl ZeroDivisionError"
    using apply_scaling_zero_factor by blast
next
  assume k: "rs ''factor'' = Some factor \<and> rs ''low_freq_factor'' = Some low_freq_factor
      \<and> rs ''high_freq_factor'' = Some high_freq_factor
      \<and> rs ''original_max_position_embeddings'' = Some old_context_len"
    and a: "low_freq_factor \<noteq> 0 \<and> high_freq_factor \<noteq> 0 \<and> 0 \<notin> set freqs
        \<and> old_context_len / high_freq_factor = old_context_len / low_freq_factor
        \<and> (\<exists>f \<in> set freqs. 2 * pi / f = old_context_len / low_freq_factor)"
  from a obtain f where f: "f \<in> set freqs" "2 * pi / f = old_context_len / low_freq_factor"
    by blast
  from a have "old_context_len / high_freq_factor = old_context_len / low_freq_factor"
    by (elim conjE)
  then have e: "old_context_len / low_freq_factor = old_context_len / high_freq_factor"
    by (rule sym)
  have n1: "\<not> 2 * pi / f < old_context_len / high_freq_factor"
    and n2: "\<not> old_context_len / high_freq_factor < 2 * pi / f"
    using e f(2) by linarith+
  have "scale_freq factor low_freq_factor high_freq_factor old_context_len f
      = Inl AssertionError"
    by (simp only: scale_freq_first_match n1 n2 e if_False if_True simp_thms)
  then have "scale_freqs factor low_freq_factor high_freq_factor old_context_len freqs
      = Inl AssertionError"
    by (rule scale_freqs_assert [OF f(1)])
  moreover have "apply_scaling freqs rs
      = scale_freqs factor low_freq_factor high_freq_factor old_context_len freqs"
    using k a by (intro apply_scaling_present) simp_all
  ultimately show "apply_scaling freqs rs = Inl AssertionError" by simp
next
  assume k: "rs ''factor'' = Some factor \<and> rs ''low_freq_factor'' = Some low_freq_factor
      \<and> rs ''high_freq_factor'' = Some high_freq_factor
      \<and> rs ''original_max_position_embeddings'' = Some old_context_len"
    and a: "low_freq_factor \<noteq> 0 \<and> high_freq_factor \<noteq> 0 \<and> factor \<noteq> 0 \<and> 0 \<notin> set freqs
        \<and> \<not> (old_context_len / high_freq_factor = old_context_len / low_freq_factor
             \<and> (\<exists>f \<in> set freqs. 2 * pi / f = old_context_len / low_freq_factor))"
  have eq: "apply_scaling freqs rs
      = scale_freqs factor low_freq_factor high_freq_factor old_context_len freqs"
    using k a by (intro apply_scaling_present) simp_all
  from a have "\<not> (old_context_len / high_freq_factor = old_context_len / low_freq_factor
             \<and> (\<exists>f \<in> set freqs. 2 * pi / f = old_context_len / low_freq_factor))" by blast
  from scale_freqs_bands [OF this, of factor]
  show "\<exists>out. apply_scaling freqs rs = Inr out \<and> length out = length freqs
        \<and> (\<forall>i < length freqs.
             (2 * pi / (freqs ! i) < old_context_len / high_freq_factor \<longrightarrow>
                out ! i = freqs ! i)
           \<and> (\<not> 2 * pi / (freqs ! i) < old_context_len / high_freq_factor
              \<and> old_context_len / low_freq_factor < 2 * pi / (freqs ! i) \<longrightarrow>
                out ! i = freqs ! i / factor)
           \<and> (old_context_len / high_freq_factor \<le> 2 * pi / (freqs ! i)
              \<and> 2 * pi / (freqs ! i) \<le> old_context_len / low_freq_factor \<longrightarrow>
                (\<exists>smooth. smooth = (old_context_len / (2 * pi / (freqs ! i)) - low_freq_factor)
                                   / (high_freq_factor - low_freq_factor)
                   \<and> out ! i = (1 - smooth) * (freqs ! i) / factor
                             + smooth * (freqs ! i))))"
    unfolding eq .
qed

text \<open>
  C4 as stated fails.  With the four keys present and \<open>low_freq_factor = 0\<close> the call
  raises \<open>ZeroDivisionError\<close> and returns no frequency.  With \<open>low_freq_factor = 4\<close> and
  \<open>high_freq_factor = 1\<close> the frequency of wavelength 4096 lies above the long-wavelength
  threshold \<open>8192 / 4\<close>, and is returned unchanged, not divided by the factor 8.
\<close>

theorem apply_scaling_unstated_conditions:
  "apply_scaling [1] zero_low_scaling = Inl ZeroDivisionError
   \<and> list_all (\<lambda>key. zero_low_scaling key \<noteq> None) required_keys
   \<and> list_all (\<lambda>key. inverted_scaling key \<noteq> None) required_keys
   \<and> apply_scaling [2 * pi / 4096] inverted_scaling = Inr [2 * pi / 4096]
   \<and> 8192 / 4 < 2 * pi / (2 * pi / 4096)
   \<and> 2 * pi / 4096 \<noteq> 2 * pi / 4096 / 8"
proof -
  have "apply_scaling [1] zero_low_scaling = Inl ZeroDivisionError"
    by (rule apply_scaling_zero_factor [OF zero_low_scaling_keys]) simp
  moreover have "apply_scaling [2 * pi / 4096] inverted_scaling = Inr [2 * pi / 4096]"
    by (simp add: apply_scaling_single [OF inverted_scaling_keys] scale_freq_first_match)
  moreover have "(8192::real) / 4 < 2 * pi / (2 * pi / 4096)" by simp
  moreover have "2 * pi / 4096 \<noteq> 2 * pi / 4096 / 8" by simp
  ultimately show ?thesis
    by (simp add: required_keys_def zero_low_scaling_def inverted_scaling_def)
qed

theorem apply_scaling_bands_witness:
  "apply_scaling [1, 2 * pi / 4096, 2 * pi / 16384] llama_scaling
     = Inr [1, (1 - 1 / 3) * (2 * pi / 4096) / 8 + 1 / 3 * (2 * pi / 4096), 2 * pi / 16384 / 8]
   \<and> apply_scaling [1] [''factor'' \<mapsto> 8] = Inl ValueError
   \<and> apply_scaling [1] zero_low_scaling = Inl ZeroDivisionError
   \<and> apply_scaling [1, 2 * pi / 2048]
        [''factor'' \<mapsto> 8, ''low_freq_factor'' \<mapsto> 4, ''high_freq_factor'' \<mapsto> 4,
         ''original_max_position_embeddings'' \<mapsto> 8192] = Inl AssertionError"
proof -
  let ?fs = "[1, 2 * pi / 4096, 2 * pi / 16384 :: real]"
  let ?eq = "[''factor'' \<mapsto> 8, ''low_freq_factor'' \<mapsto> 4, ''high_freq_factor'' \<mapsto> 4,
         ''original_max_position_embeddings'' \<mapsto> (8192::real)]"
  have pi4: "2 * pi < 2048" using pi_less_4 by simp
  have missing: "apply_scaling [1] [''factor'' \<mapsto> 8] = Inl ValueError"
    by (rule apply_scaling_bands [of "''low_freq_factor''" "[''factor'' \<mapsto> 8]" "[1]",
          THEN conjunct1, THEN mp]) (simp add: required_keys_def)
  have zero: "apply_scaling [1] zero_low_scaling = Inl ZeroDivisionError"
    by (rule apply_scaling_bands [of "''factor''" zero_low_scaling "[1]" 8 0 4 8192,
          THEN conjunct2, THEN mp, THEN conjunct1, THEN mp])
       (simp_all add: zero_low_scaling_keys)
  have tie: "apply_scaling [1, 2 * pi / 2048] ?eq = Inl AssertionError"
    by (rule apply_scaling_bands [of "''factor''" ?eq "[1, 2 * pi / 2048]" 8 4 4 8192,
          THEN conjunct2, THEN mp, THEN conjunct2, THEN conjunct1, THEN mp]) simp_all
  have "\<exists>out. apply_scaling ?fs llama_scaling = Inr out \<and> length out = length ?fs
        \<and> (\<forall>i < length ?fs.
             (2 * pi / (?fs ! i) < 8192 / 4 \<longrightarrow> out ! i = ?fs ! i)
           \<and> (\<not> 2 * pi / (?fs ! i) < 8192 / 4 \<and> 8192 / 1 < 2 * pi / (?fs ! i) \<longrightarrow>
                out ! i = ?fs ! i / 8)
           \<and> (8192 / 4 \<le> 2 * pi / (?fs ! i) \<and> 2 * pi / (?fs ! i) \<le> 8192 / 1 \<longrightarrow>
                (\<exists>smooth. smooth = (8192 / (2 * pi / (?fs ! i)) - 1) / (4 - 1)
                   \<and> out ! i = (1 - smooth) * (?fs ! i) / 8 + smooth * (?fs ! i))))"
    by (rule apply_scaling_bands [of "''factor''" llama_scaling ?fs 8 1 4 8192,
          THEN conjunct2, THEN mp, THEN conjunct2, THEN conjunct2, THEN mp])
       (simp_all add: llama_scaling_keys)
  then obtain out where out: "apply_scaling ?fs llama_scaling = Inr out" "length out = 3"
    and b: "\<And>i. i < 3 \<Longrightarrow>
             (2 * pi / (?fs ! i) < 8192 / 4 \<longrightarrow> out ! i = ?fs ! i)
           \<and> (\<not> 2 * pi / (?fs ! i) < 8192 / 4 \<and> 8192 / 1 < 2 * pi / (?fs ! i) \<longrightarrow>
                out ! i = ?fs ! i / 8)
           \<and> (8192 / 4 \<le> 2 * pi / (?fs ! i) \<and> 2 * pi / (?fs ! i) \<le> 8192 / 1 \<longrightarrow>
                (\<exists>smooth. smooth = (8192 / (2 * pi / (?fs ! i)) - 1) / (4 - 1)
                   \<and> out ! i = (1 - smooth) * (?fs ! i) / 8 + smooth * (?fs ! i)))"
    by auto
  have 0: "out ! 0 = 1" using b [of 0] pi4 by simp
  have "\<exists>smooth. smooth = (8192 / (2 * pi / (?fs ! 1)) - 1) / (4 - 1)
          \<and> out ! 1 = (1 - smooth) * (?fs ! 1) / 8 + smooth * (?fs ! 1)"
    using b [of 1] by simp
  then obtain smooth :: real where sm: "smooth = (8192 / (2 * pi / (?fs ! 1)) - 1) / (4 - 1)"
    and o: "out ! 1 = (1 - smooth) * (?fs ! 1) / 8 + smooth * (?fs ! 1)"
    by blast
  from sm have "smooth = 1 / 3" by simp
  with o have 1: "out ! 1 = (1 - 1 / 3) * (2 * pi / 4096) / 8 + 1 / 3 * (2 * pi / 4096)"
    by simp
  have 2: "out ! 2 = 2 * pi / 16384 / 8" using b [of 2] by simp
  have "out = [out ! 0, out ! 1, out ! 2]"
    using out(2) by (auto simp: list_eq_iff_nth_eq less_Suc_eq numeral_3_eq_3 numeral_2_eq_2)
  then have "out = [1, (1 - 1 / 3) * (2 * pi / 4096) / 8 + 1 / 3 * (2 * pi / 4096),
                    2 * pi / 16384 / 8]"
    unfolding 0 1 2 .
  with out(1) have "apply_scaling ?fs llama_scaling
     = Inr [1, (1 - 1 / 3) * (2 * pi / 4096) / 8 + 1 / 3 * (2 * pi / 4096), 2 * pi / 16384 / 8]"
    by (simp only:)
  with missing zero tie show ?thesis by (intro conjI)
qed

lemma mid_band_value:
  fixes smooth :: real
  shows "smooth = 0 \<Longrightarrow> (1 - smooth) * freq / factor + smooth * freq = freq / factor"
    and "smooth = 1 \<Longrightarrow> (1 - smooth) * freq / factor + smooth * freq = freq"
  by simp_all

text \<open>
  C5, as amended.  When the four keys are present, \<open>factor\<close>, \<open>low_freq_factor\<close> and
  \<open>high_freq_factor\<close> are not zero and the short-wavelength threshold is below the
  long-wavelength threshold, a frequency whose wavelength is exactly \<open>low_freq_wavelen\<close> is
  scaled by the interpolation formula of the middle band, and the value is
  \<open>freq / factor\<close>, the value of the long-wavelength branch; a frequency whose wavelength
  is exactly \<open>high_freq_wavelen\<close> is scaled by the same formula, and the value is \<open>freq\<close>,
  the value of the pass-through branch.  (In real arithmetic; the source computes in
  floating point.  The hypotheses leave no room for a zero frequency.)
\<close>

theorem apply_scaling_continuous:
  fixes rs :: "string \<rightharpoonup> real"
  assumes "rs ''factor'' = Some factor" "rs ''low_freq_factor'' = Some low_freq_factor"
    "rs ''high_freq_factor'' = Some high_freq_factor"
    "rs ''original_max_position_embeddings'' = Some old_context_len"
    "low_freq_factor \<noteq> 0" "high_freq_factor \<noteq> 0"
    "old_context_len / high_freq_factor < old_context_len / low_freq_factor"
    "factor \<noteq> 0"
  shows "(2 * pi / freq = old_context_len / low_freq_factor \<longrightarrow>
           apply_scaling [freq] rs =
             Inr [(1 - (old_context_len / (2 * pi / freq) - low_freq_factor)
                        / (high_freq_factor - low_freq_factor)) * freq / factor
                  + (old_context_len / (2 * pi / freq) - low_freq_factor)
                        / (high_freq_factor - low_freq_factor) * freq]
         \<and> apply_scaling [freq] rs = Inr [freq / factor])
       \<and> (2 * pi / freq = old_context_len / high_freq_factor \<longrightarrow>
           apply_scaling [freq] rs =
             Inr [(1 - (old_context_len / (2 * pi / freq) - low_freq_factor)
                        / (high_freq_factor - low_freq_factor)) * freq / factor
                  + (old_context_len / (2 * pi / freq) - low_freq_factor)
                        / (high_freq_factor - low_freq_factor) * freq]
         \<and> apply_scaling [freq] rs = Inr [freq])"
proof -
  define w where "w = 2 * pi / freq"
  define smooth where
    "smooth = (old_context_len / w - low_freq_factor) / (high_freq_factor - low_freq_factor)"
  define mid where "mid = (1 - smooth) * freq / factor + smooth * freq"
  have old: "old_context_len \<noteq> 0" using assms(7) by auto
  have ne: "high_freq_factor \<noteq> low_freq_factor" using assms(7) by auto
  have lh: "old_context_len / low_freq_factor \<noteq> old_context_len / high_freq_factor"
    using assms(7) by linarith
  note single = apply_scaling_single [OF assms(1-6), of freq]
  have band: "scale_freq factor low_freq_factor high_freq_factor old_context_len freq =
     (if w < old_context_len / high_freq_factor then Inr freq
      else if old_context_len / low_freq_factor < w then Inr (freq / factor)
      else Inr mid)"
    unfolding mid_def smooth_def w_def scale_freq_first_match using lh by simp
  have middle: "apply_scaling [freq] rs = Inr [mid]"
    if "w = old_context_len / low_freq_factor \<or> w = old_context_len / high_freq_factor"
  proof -
    from that assms(7) have "\<not> w < old_context_len / high_freq_factor"
      "\<not> old_context_len / low_freq_factor < w" by auto
    then show ?thesis by (simp add: single band)
  qed
  have low: "mid = freq / factor" if w: "w = old_context_len / low_freq_factor"
  proof -
    have "old_context_len / w = low_freq_factor"
      using old assms(5) by (simp add: w)
    then have "smooth = 0" by (simp add: smooth_def)
    then show ?thesis unfolding mid_def by (rule mid_band_value)
  qed
  have high: "mid = freq" if w: "w = old_context_len / high_freq_factor"
  proof -
    have "old_context_len / w = high_freq_factor"
      using old assms(6) by (simp add: w)
    then have "smooth = 1" using ne by (simp add: smooth_def)
    then show ?thesis unfolding mid_def by (rule mid_band_value)
  qed
  have "(w = old_context_len / low_freq_factor \<longrightarrow>
           apply_scaling [freq] rs = Inr [mid] \<and> apply_scaling [freq] rs = Inr [freq / factor])
       \<and> (w = old_context_len / high_freq_factor \<longrightarrow>
           apply_scaling [freq] rs = Inr [mid] \<and> apply_scaling [freq] rs = Inr [freq])"
    using middle low high by auto
  then show ?thesis unfolding mid_def smooth_def w_def .
qed

text \<open>
  C5 as stated fails.  With \<open>low_freq_factor = 4\<close> and \<open>high_freq_factor = 1\<close> the thresholds
  are \<open>low_freq_wavelen = 2048\<close> and \<open>high_freq_wavelen = 8192\<close>.  The frequency of wavelength
  exactly \<open>high_freq_wavelen\<close> is divided by the factor, so it is not the pass-through
  value; the frequency of wavelength exactly \<open>low_freq_wavelen\<close> is passed through, so it is
  not the value of the long-wavelength branch.  With \<open>low_freq_factor = 0\<close> there is no
  value at all.
\<close>

theorem apply_scaling_discontinuous:
  "list_all (\<lambda>key. inverted_scaling key \<noteq> None) required_keys
   \<and> 2 * pi / (2 * pi / 8192) = 8192 / 1
   \<and> apply_scaling [2 * pi / 8192] inverted_scaling = Inr [2 * pi / 8192 / 8]
   \<and> 2 * pi / 8192 / 8 \<noteq> 2 * pi / 8192
   \<and> 2 * pi / (2 * pi / 2048) = 8192 / 4
   \<and> apply_scaling [2 * pi / 2048] inverted_scaling = Inr [2 * pi / 2048]
   \<and> 2 * pi / 2048 \<noteq> 2 * pi / 2048 / 8
   \<and> apply_scaling [2 * pi / 8192] zero_low_scaling = Inl ZeroDivisionError"
proof -
  have "apply_scaling [2 * pi / 8192] inverted_scaling = Inr [2 * pi / 8192 / 8]"
    by (simp add: apply_scaling_single [OF inverted_scaling_keys] scale_freq_first_match)
  moreover have "apply_scaling [2 * pi / 2048] inverted_scaling = Inr [2 * pi / 2048]"
    by (simp add: apply_scaling_single [OF inverted_scaling_keys] scale_freq_first_match)
  moreover have "apply_scaling [2 * pi / 8192] zero_low_scaling = Inl ZeroDivisionError"
    by (rule apply_scaling_zero_factor [OF zero_low_scaling_keys]) simp
  ultimately show ?thesis
    by (simp add: required_keys_def inverted_scaling_def)
qed

theorem apply_scaling_continuous_witness:
  "apply_scaling [2 * pi / 8192] llama_scaling = Inr [2 * pi / 8192 / 8]
   \<and> apply_scaling [2 * pi / 2048] llama_scaling = Inr [2 * pi / 2048]"
proof -
  have h: "(1::real) \<noteq> 0" "(4::real) \<noteq> 0" "(8192::real) / 4 < 8192 / 1" "(8::real) \<noteq> 0"
    by simp_all
  note t = apply_scaling_continuous [OF llama_scaling_keys h]
  have "apply_scaling [2 * pi / 8192] llama_scaling = Inr [2 * pi / 8192 / 8]"
    using t [of "2 * pi / 8192"] by simp
  moreover have "apply_scaling [2 * pi / 2048] llama_scaling = Inr [2 * pi / 2048]"
    using t [of "2 * pi / 2048"] by simp
  ultimately show ?thesis by simp
qed

section \<open>Name resolution\<close>

lemma filter_length_sort_key:
  "length (filter P (sort_key f xs)) = length (filter P xs)"
  by (simp add: filter_sort)

lemma sort_key_two:
  assumes "1 < length xs"
  obtains a b rest where "sort_key f xs = a # b # rest"
    "f a \<le> f b" "\<forall>x \<in> set rest. f b \<le> f x"
proof -
  have "length (sort_key f xs) = length xs" by simp
  with assms obtain a b rest where eq: "sort_key f xs = a # b # rest"
    by (metis One_nat_def Suc_lessE length_Suc_conv less_nat_zero_code list.size(3) neq_Nil_conv)
  have "sorted (map f (sort_key f xs))" by (rule sorted_sort_key)
  with eq have "f a \<le> f b" "\<forall>x \<in> set rest. f b \<le> f x" by auto
  with eq show thesis by (rule that)
qed

lemma from_name_exact:
  "is_file (name @ ascii ''.json'') \<Longrightarrow> from_name upper is_file listdir name = Inr (name @ ascii ''.json'')"
  by (simp add: from_name_def)

lemma from_name_none:
  assumes "\<not> is_file (name @ ascii ''.json'')" "fuzzy_matches upper (map replace_json listdir) name = []"
  shows "from_name upper is_file listdir name = Inl ValueError"
  using assms by (simp add: from_name_def)

lemma from_name_longest:
  assumes nf: "\<not> is_file (name @ ascii ''.json'')"
    and c: "c \<in> set (fuzzy_matches upper (map replace_json listdir) name)"
    and one: "length (filter (\<lambda>d. length c \<le> length d)
                (fuzzy_matches upper (map replace_json listdir) name)) = 1"
  shows "from_name upper is_file listdir name = Inr (c @ ascii ''.json'')"
proof -
  define xs where "xs = fuzzy_matches upper (map replace_json listdir) name"
  define f where "f = (\<lambda>c::str. - int (length c))"
  define P where "P = (\<lambda>d::str. length c \<le> length d)"
  have cx: "c \<in> set xs" and one': "length (filter P xs) = 1"
    using c one by (simp_all add: xs_def P_def)
  have only: "d = c" if "d \<in> set xs" "P d" for d
  proof -
    from one' obtain e where e: "filter P xs = [e]"
      by (auto simp: length_Suc_conv)
    have "c \<in> set (filter P xs)" using cx by (simp add: P_def)
    moreover have "d \<in> set (filter P xs)" using that by simp
    ultimately show ?thesis using e by simp
  qed
  show ?thesis
  proof (cases "1 < length xs")
    case False
    with cx have "xs = [c]" by (cases xs) auto
    then show ?thesis using nf by (simp add: from_name_def xs_def [symmetric])
  next
    case True
    obtain a b rest where s: "sort_key f xs = a # b # rest" and ab: "f a \<le> f b"
      and r: "\<forall>x \<in> set rest. f b \<le> f x"
      using sort_key_two [OF True] by blast
    have set: "set (sort_key f xs) = set xs" by simp
    have "c \<in> set (a # b # rest)" using cx s set by simp
    then have "f a \<le> f c" using ab r by auto
    then have "P a" by (simp add: P_def f_def)
    moreover have "a \<in> set xs" using s set by auto
    ultimately have a: "a = c" by (rule only [rotated])
    have "length a \<noteq> length b"
    proof
      assume "length a = length b"
      then have "P b" using \<open>P a\<close> by (simp add: P_def)
      then have "2 \<le> length (filter P (sort_key f xs))"
        using \<open>P a\<close> by (simp add: s)
      then show False using one' by (simp add: filter_length_sort_key)
    qed
    then show ?thesis
      using nf True s a
      by (simp add: from_name_def xs_def [symmetric] f_def [symmetric] Let_def)
  qed
qed

lemma from_name_tie:
  assumes nf: "\<not> is_file (name @ ascii ''.json'')"
    and c: "c \<in> set (fuzzy_matches upper (map replace_json listdir) name)"
    and longest: "\<forall>d \<in> set (fuzzy_matches upper (map replace_json listdir) name). length d \<le> length c"
    and tie: "1 < length (filter (\<lambda>d. length d = length c)
                (fuzzy_matches upper (map replace_json listdir) name))"
  shows "from_name upper is_file listdir name = Inl AssertionError"
proof -
  define xs where "xs = fuzzy_matches upper (map replace_json listdir) name"
  define f where "f = (\<lambda>c::str. - int (length c))"
  define P where "P = (\<lambda>d::str. length d = length c)"
  have cx: "c \<in> set xs" and mx: "\<forall>d \<in> set xs. length d \<le> length c"
    and tie': "1 < length (filter P xs)"
    using c longest tie by (simp_all add: xs_def P_def)
  have "length (filter P xs) \<le> length xs" by simp
  with tie' have len: "1 < length xs" by linarith
  obtain a b rest where s: "sort_key f xs = a # b # rest" and ab: "f a \<le> f b"
    and r: "\<forall>x \<in> set rest. f b \<le> f x"
    using sort_key_two [OF len] by blast
  have set: "set (sort_key f xs) = set xs" by simp
  have "c \<in> set (a # b # rest)" using cx s set by simp
  then have "f a \<le> f c" using ab r by auto
  moreover have "a \<in> set xs" "b \<in> set xs" using s set by auto
  ultimately have a: "length a = length c" using mx by (auto simp: f_def)
  have "length b = length c"
  proof (rule ccontr)
    assume n: "length b \<noteq> length c"
    with mx \<open>b \<in> set xs\<close> have "length b < length c" by (simp add: le_neq_implies_less)
    then have "\<forall>x \<in> set (b # rest). \<not> P x" using r by (auto simp: f_def P_def)
    then have "filter P (b # rest) = []" by simp
    then have "length (filter P (sort_key f xs)) \<le> 1" by (simp add: s)
    then show False using tie' by (simp add: filter_length_sort_key)
  qed
  with a have "length a = length b" by simp
  then show ?thesis
    using nf len s
    by (simp add: from_name_def xs_def [symmetric] f_def [symmetric] Let_def)
qed

lemma is_substring_iff: "is_substring sub s \<longleftrightarrow> (\<exists>p q. s = p @ sub @ q)"
proof (induction s)
  case Nil
  then show ?case by auto
next
  case (Cons c cs)
  have "take (length sub) (c # cs) = sub \<longleftrightarrow> (\<exists>q. c # cs = sub @ q)"
    by (metis append_eq_conv_conj append_take_drop_id)
  moreover have "(\<exists>p q. c # cs = p @ sub @ q) \<longleftrightarrow>
      (\<exists>q. c # cs = sub @ q) \<or> (\<exists>p q. cs = p @ sub @ q)"
  proof
    assume "\<exists>p q. c # cs = p @ sub @ q"
    then obtain p q where pq: "c # cs = p @ sub @ q" by blast
    show "(\<exists>q. c # cs = sub @ q) \<or> (\<exists>p q. cs = p @ sub @ q)"
    proof (cases p)
      case Nil
      with pq show ?thesis by auto
    next
      case (Cons x p')
      with pq have "cs = p' @ sub @ q" by simp
      then show ?thesis by blast
    qed
  next
    assume "(\<exists>q. c # cs = sub @ q) \<or> (\<exists>p q. cs = p @ sub @ q)"
    then show "\<exists>p q. c # cs = p @ sub @ q"
    proof
      assume "\<exists>q. c # cs = sub @ q"
      then obtain q where "c # cs = [] @ sub @ q" by auto
      then show ?thesis by blast
    next
      assume "\<exists>p q. cs = p @ sub @ q"
      then obtain p q where "c # cs = (c # p) @ sub @ q" by auto
      then show ?thesis by blast
    qed
  qed
  ultimately show ?case using Cons.IH by simp
qed

text \<open>
  C9, as amended.  If a file named after the key with \<open>.json\<close> appended exists, that file is
  loaded, whatever the known names are.  Otherwise the known names found in the key, or
  in the key in upper case (\<open>upper name\<close>, for any function \<open>upper\<close>), are the matches,
  lengths being counted in code points: with no match \<open>from_name\<close> raises
  \<open>ValueError\<close>; with a match that is strictly longer than every other match, the file of
  that name is loaded; with two or more matches of the greatest length, the \<open>assert\<close>
  fails (\<open>AssertionError\<close>).
\<close>

theorem from_name_resolution:
  "(is_file (name @ ascii ''.json'') \<longrightarrow> from_name upper is_file listdir name = Inr (name @ ascii ''.json''))
   \<and> (\<not> is_file (name @ ascii ''.json'')
        \<and> fuzzy_matches upper (map replace_json listdir) name = [] \<longrightarrow>
      from_name upper is_file listdir name = Inl ValueError)
   \<and> (\<not> is_file (name @ ascii ''.json'')
        \<and> c \<in> set (fuzzy_matches upper (map replace_json listdir) name)
        \<and> length (filter (\<lambda>d. length c \<le> length d)
                    (fuzzy_matches upper (map replace_json listdir) name)) = 1 \<longrightarrow>
      from_name upper is_file listdir name = Inr (c @ ascii ''.json''))
   \<and> (\<not> is_file (name @ ascii ''.json'')
        \<and> c \<in> set (fuzzy_matches upper (map replace_json listdir) name)
        \<and> (\<forall>d \<in> set (fuzzy_matches upper (map replace_json listdir) name). length d \<le> length c)
        \<and> 1 < length (filter (\<lambda>d. length d = length c)
                    (fuzzy_matches upper (map replace_json listdir) name)) \<longrightarrow>
      from_name upper is_file listdir name = Inl AssertionError)
   \<and> (c \<in> set (fuzzy_matches upper (map replace_json listdir) name) \<longleftrightarrow>
        c \<in> replace_json ` set listdir
        \<and> ((\<exists>p q. upper name = p @ c @ q) \<or> (\<exists>p q. name = p @ c @ q)))"
proof (intro conjI impI)
  show "c \<in> set (fuzzy_matches upper (map replace_json listdir) name) \<longleftrightarrow>
        c \<in> replace_json ` set listdir
        \<and> ((\<exists>p q. upper name = p @ c @ q) \<or> (\<exists>p q. name = p @ c @ q))"
    by (simp add: fuzzy_matches_def is_substring_iff)
next
  assume "is_file (name @ ascii ''.json'')"
  then show "from_name upper is_file listdir name = Inr (name @ ascii ''.json'')"
    by (rule from_name_exact)
next
  assume "\<not> is_file (name @ ascii ''.json'')
        \<and> fuzzy_matches upper (map replace_json listdir) name = []"
  then show "from_name upper is_file listdir name = Inl ValueError"
    using from_name_none by blast
next
  assume "\<not> is_file (name @ ascii ''.json'')
        \<and> c \<in> set (fuzzy_matches upper (map replace_json listdir) name)
        \<and> length (filter (\<lambda>d. length c \<le> length d)
                    (fuzzy_matches upper (map replace_json listdir) name)) = 1"
  then show "from_name upper is_file listdir name = Inr (c @ ascii ''.json'')"
    using from_name_longest by blast
next
  assume "\<not> is_file (name @ ascii ''.json'')
        \<and> c \<in> set (fuzzy_matches upper (map replace_json listdir) name)
        \<and> (\<forall>d \<in> set (fuzzy_matches upper (map replace_json listdir) name). length d \<le> length c)
        \<and> 1 < length (filter (\<lambda>d. length d = length c)
                    (fuzzy_matches upper (map replace_json listdir) name))"
  then show "from_name upper is_file listdir name = Inl AssertionError"
    using from_name_tie by blast
qed

text \<open>
  C9 as stated fails: with the files \<open>7B.json\<close> and \<open>7b.json\<close> the key \<open>7b\<close> has the two
  matches \<open>7B\<close> and \<open>7b\<close> of equal length, and \<open>from_name\<close> does not raise: it loads
  \<open>7b.json\<close>, found under the key's own name.
\<close>

theorem from_name_exact_file_first:
  "fuzzy_matches ascii_upper (map replace_json [ascii ''7B.json'', ascii ''7b.json''])
       (ascii ''7b'') = [ascii ''7B'', ascii ''7b'']
   \<and> from_name ascii_upper (\<lambda>f. f = ascii ''7B.json'' \<or> f = ascii ''7b.json'')
       [ascii ''7B.json'', ascii ''7b.json''] (ascii ''7b'') = Inr (ascii ''7b.json'')"
  by (simp add: from_name_def fuzzy_matches_def ascii_upper_def ascii_def)

theorem from_name_resolution_witness:
  "from_name ascii_upper (\<lambda>f. False) [ascii ''7B.json'', ascii ''Mistral-7B.json'']
       (ascii ''Mistral-7B-v2'') = Inr (ascii ''Mistral-7B.json'')
   \<and> from_name ascii_upper (\<lambda>f. False) [ascii ''7B.json'', ascii ''7b.json'']
       (ascii ''x7b'') = Inl AssertionError
   \<and> from_name ascii_upper (\<lambda>f. False) [ascii ''7B.json'', ascii ''Mistral-7B.json'']
       (ascii ''13B'') = Inl ValueError
   \<and> from_name ascii_upper (\<lambda>f. f = ascii ''7B.json'')
       [ascii ''7B.json'', ascii ''Mistral-7B.json''] (ascii ''7B'') = Inr (ascii ''7B.json'')
   \<and> ascii ''7B'' \<in> set (fuzzy_matches ascii_upper
         (map replace_json [ascii ''7B.json'', ascii ''Mistral-7B.json'']) (ascii ''x7b''))"
proof -
  note ev = fuzzy_matches_def ascii_upper_def ascii_def
  have "from_name ascii_upper (\<lambda>f. False) [ascii ''7B.json'', ascii ''Mistral-7B.json'']
       (ascii ''Mistral-7B-v2'') = Inr (ascii ''Mistral-7B'' @ ascii ''.json'')"
    by (rule from_name_resolution [of "\<lambda>f. False" "ascii ''Mistral-7B-v2''" ascii_upper
        "[ascii ''7B.json'', ascii ''Mistral-7B.json'']" "ascii ''Mistral-7B''",
        THEN conjunct2, THEN conjunct2, THEN conjunct1, THEN mp])
       (simp add: ev)
  then have 1: "from_name ascii_upper (\<lambda>f. False)
       [ascii ''7B.json'', ascii ''Mistral-7B.json''] (ascii ''Mistral-7B-v2'')
     = Inr (ascii ''Mistral-7B.json'')" by (simp add: ascii_def)
  have 2: "from_name ascii_upper (\<lambda>f. False) [ascii ''7B.json'', ascii ''7b.json'']
       (ascii ''x7b'') = Inl AssertionError"
    by (rule from_name_resolution [of "\<lambda>f. False" "ascii ''x7b''" ascii_upper
        "[ascii ''7B.json'', ascii ''7b.json'']" "ascii ''7B''",
        THEN conjunct2, THEN conjunct2, THEN conjunct2, THEN conjunct1, THEN mp])
       (simp add: ev)
  have 3: "from_name ascii_upper (\<lambda>f. False) [ascii ''7B.json'', ascii ''Mistral-7B.json'']
       (ascii ''13B'') = Inl ValueError"
    by (rule from_name_resolution [of "\<lambda>f. False" "ascii ''13B''" ascii_upper
        "[ascii ''7B.json'', ascii ''Mistral-7B.json'']" "ascii ''7B''",
        THEN conjunct2, THEN conjunct1, THEN mp])
       (simp add: ev)
  have "from_name ascii_upper (\<lambda>f. f = ascii ''7B.json'')
       [ascii ''7B.json'', ascii ''Mistral-7B.json''] (ascii ''7B'')
     = Inr (ascii ''7B'' @ ascii ''.json'')"
    by (rule from_name_resolution [of "\<lambda>f. f = ascii ''7B.json''" "ascii ''7B''" ascii_upper
        "[ascii ''7B.json'', ascii ''Mistral-7B.json'']" "ascii ''7B''",
        THEN conjunct1, THEN mp]) (simp add: ascii_def)
  then have 4: "from_name ascii_upper (\<lambda>f. f = ascii ''7B.json'')
       [ascii ''7B.json'', ascii ''Mistral-7B.json''] (ascii ''7B'')
     = Inr (ascii ''7B.json'')" by (simp add: ascii_def)
  have 5: "ascii ''7B'' \<in> set (fuzzy_matches ascii_upper
         (map replace_json [ascii ''7B.json'', ascii ''Mistral-7B.json'']) (ascii ''x7b''))"
    by (rule from_name_resolution [of "\<lambda>f. False" "ascii ''x7b''" ascii_upper
        "[ascii ''7B.json'', ascii ''Mistral-7B.json'']" "ascii ''7B''",
        THEN conjunct2, THEN conjunct2, THEN conjunct2, THEN conjunct2, THEN iffD2])
       (simp add: ev exI [of _ "ascii ''X''"])
  from 1 2 3 4 5 show ?thesis by (intro conjI)
qed

section \<open>Concatenation fusion: the decoder input and the result of forward\<close>

lemma embedding_in_range:
  assumes "shape W = [V, D]"
    and "\<forall>idx \<in> set (indices (shape tokens)). 0 \<le> elem tokens idx \<and> elem tokens idx < int V"
  shows "embedding W tokens =
     Inr \<lparr>shape = shape tokens @ [D],
          elem = (\<lambda>idx. elem W [nat (elem tokens (butlast idx)), last idx])\<rparr>"
proof -
  have "\<not> list_ex (\<lambda>idx. elem tokens idx < 0 \<or> int (shape W ! 0) \<le> elem tokens idx)
           (indices (shape tokens))"
    using assms by (auto simp: list_ex_iff)
  then show ?thesis using assms(1) by (simp add: embedding_def)
qed

lemma projector_shape:
  assumes "shape (weight (linear_1 mp)) = [Hn, C]" "shape (weight (linear_2 mp)) = [D, Hn]"
    and "shape x = [B, P, C]"
  shows "\<exists>img. MultiModalProjector_forward mp x = Inr img \<and> shape img = [B, P, D]"
  using assms by (simp add: MultiModalProjector_forward_def Linear_forward_def)

lemma cat_dim1_three:
  assumes "shape a = [B, Ta, D]" "shape b = [B, Tb, D]" "shape c = [B, Tc, D]"
  shows "\<exists>x. cat_dim1 [a, b, c] = Inr x \<and> shape x = [B, Ta + Tb + Tc, D]
     \<and> (\<forall>i s d. elem x [i, s, d] =
          (if s < Ta then elem a [i, s, d]
           else if s < Ta + Tb then elem b [i, s - Ta, d]
           else elem c [i, s - Ta - Tb, d]))"
  using assms by (auto simp: cat_dim1_def)

lemma get_decoder_input_fused:
  assumes W: "shape (tok_embeddings self) = [V, D]"
    and l1: "shape (weight (linear_1 (mm_projector self))) = [Hn, C]"
    and l2: "shape (weight (linear_2 (mm_projector self))) = [D, Hn]"
    and tok: "shape tokens = [B, T1]"
      "\<forall>idx \<in> set (indices [B, T1]). 0 \<le> elem tokens idx \<and> elem tokens idx < int V"
    and post: "shape post_tokens = [B, T2]"
      "\<forall>idx \<in> set (indices [B, T2]). 0 \<le> elem post_tokens idx \<and> elem post_tokens idx < int V"
    and enc: "shape encoder_output = [B, P, C]"
  shows "\<exists>x pre_img_embed image_embeds post_img_embed.
      get_decoder_input self tokens (Some encoder_output) (Some post_tokens) = Inr x
    \<and> embedding (tok_embeddings self) tokens = Inr pre_img_embed
    \<and> MultiModalProjector_forward (mm_projector self) encoder_output = Inr image_embeds
    \<and> embedding (tok_embeddings self) post_tokens = Inr post_img_embed
    \<and> shape x = [B, T1 + P + T2, D]
    \<and> (\<forall>b s d. elem x [b, s, d] =
          (if s < T1 then elem pre_img_embed [b, s, d]
           else if s < T1 + P then elem image_embeds [b, s - T1, d]
           else elem post_img_embed [b, s - T1 - P, d]))
    \<and> (T1 = 30 \<and> P = 576 \<and> T2 = 20 \<longrightarrow> shape x ! 1 = 626)"
proof -
  define pre where "pre = \<lparr>shape = shape tokens @ [D],
      elem = (\<lambda>idx. elem (tok_embeddings self) [nat (elem tokens (butlast idx)), last idx])\<rparr>"
  define pst where "pst = \<lparr>shape = shape post_tokens @ [D],
      elem = (\<lambda>idx. elem (tok_embeddings self) [nat (elem post_tokens (butlast idx)), last idx])\<rparr>"
  have e1: "embedding (tok_embeddings self) tokens = Inr pre"
    unfolding pre_def using tok by (intro embedding_in_range [OF W]) simp
  have e2: "embedding (tok_embeddings self) post_tokens = Inr pst"
    unfolding pst_def using post by (intro embedding_in_range [OF W]) simp
  obtain img where p: "MultiModalProjector_forward (mm_projector self) encoder_output = Inr img"
    and ps: "shape img = [B, P, D]"
    using projector_shape [OF l1 l2 enc] by blast
  have s1: "shape pre = [B, T1, D]" and s3: "shape pst = [B, T2, D]"
    using tok(1) post(1) by (simp_all add: pre_def pst_def)
  obtain x where c: "cat_dim1 [pre, img, pst] = Inr x"
    and sx: "shape x = [B, T1 + P + T2, D]"
    and ex: "\<And>b s d. elem x [b, s, d] =
          (if s < T1 then elem pre [b, s, d]
           else if s < T1 + P then elem img [b, s - T1, d]
           else elem pst [b, s - T1 - P, d])"
    using cat_dim1_three [OF s1 ps s3] by blast
  have g: "get_decoder_input self tokens (Some encoder_output) (Some post_tokens) = Inr x"
    by (simp add: get_decoder_input_def e1 e2 p c)
  show ?thesis
  proof (intro exI conjI allI impI)
    show "get_decoder_input self tokens (Some encoder_output) (Some post_tokens) = Inr x"
      by (rule g)
    show "embedding (tok_embeddings self) tokens = Inr pre" by (rule e1)
    show "MultiModalProjector_forward (mm_projector self) encoder_output = Inr img" by (rule p)
    show "embedding (tok_embeddings self) post_tokens = Inr pst" by (rule e2)
    show "shape x = [B, T1 + P + T2, D]" by (rule sx)
    show "elem x [b, s, d] =
          (if s < T1 then elem pre [b, s, d]
           else if s < T1 + P then elem img [b, s - T1, d]
           else elem pst [b, s - T1 - P, d])" for b s d by (rule ex)
    show "shape x ! 1 = 626" if "T1 = 30 \<and> P = 576 \<and> T2 = 20"
      using that by (simp add: sx)
  qed
qed

text \<open>
  C7.  With an encoder output of shape \<open>[B, P, C]\<close> and both token tensors given, of
  shapes \<open>[B, T1]\<close> and \<open>[B, T2]\<close> with tokens of the vocabulary, and with an embedding and
  a projector of matching widths, \<open>_get_decoder_input\<close> returns the embeddings of the pre
  tokens, the projected encoder features and the embeddings of the post tokens, in this
  order along the sequence axis: its sequence length is \<open>T1 + P + T2\<close>, which is 626 for
  30, 576 and 20.
\<close>

theorem get_decoder_input_concat:
  assumes W: "shape (tok_embeddings self) = [V, D]"
    and l1: "shape (weight (linear_1 (mm_projector self))) = [Hn, C]"
    and l2: "shape (weight (linear_2 (mm_projector self))) = [D, Hn]"
    and tok: "shape tokens = [B, T1]"
      "\<forall>idx \<in> set (indices [B, T1]). 0 \<le> elem tokens idx \<and> elem tokens idx < int V"
    and post: "shape post_tokens = [B, T2]"
      "\<forall>idx \<in> set (indices [B, T2]). 0 \<le> elem post_tokens idx \<and> elem post_tokens idx < int V"
    and enc: "shape encoder_output = [B, P, C]"
  shows "\<exists>x pre_img_embed image_embeds post_img_embed.
      get_decoder_input self tokens (Some encoder_output) (Some post_tokens) = Inr x
    \<and> embedding (tok_embeddings self) tokens = Inr pre_img_embed
    \<and> MultiModalProjector_forward (mm_projector self) encoder_output = Inr image_embeds
    \<and> embedding (tok_embeddings self) post_tokens = Inr post_img_embed
    \<and> shape x = [B, T1 + P + T2, D]
    \<and> (\<forall>b s d. elem x [b, s, d] =
          (if s < T1 then elem pre_img_embed [b, s, d]
           else if s < T1 + P then elem image_embeds [b, s - T1, d]
           else elem post_img_embed [b, s - T1 - P, d]))
    \<and> (T1 = 30 \<and> P = 576 \<and> T2 = 20 \<longrightarrow> shape x ! 1 = 626)"
  using assms by (rule get_decoder_input_fused)



theorem get_decoder_input_concat_witness:
  "\<exists>x. get_decoder_input example_fusion example_pre_tokens (Some example_features)
          (Some example_post_tokens) = Inr x
     \<and> shape x = [1, 626, 2]
     \<and> elem x [0, 29, 1] = 11 \<and> elem x [0, 30, 0] = 3 \<and> elem x [0, 605, 1] = 3
     \<and> elem x [0, 606, 0] = 20"
proof -
  have W: "shape (tok_embeddings example_fusion) = [4, 2]"
    and l1: "shape (weight (linear_1 (mm_projector example_fusion))) = [2, 3]"
    and l2: "shape (weight (linear_2 (mm_projector example_fusion))) = [2, 2]"
    by (simp_all add: example_fusion_def)
  have tok: "shape example_pre_tokens = [1, 30]"
    "\<forall>idx \<in> set (indices [1, 30]). 0 \<le> elem example_pre_tokens idx
        \<and> elem example_pre_tokens idx < int 4"
    by (simp_all add: example_pre_tokens_def)
  have post: "shape example_post_tokens = [1, 20]"
    "\<forall>idx \<in> set (indices [1, 20]). 0 \<le> elem example_post_tokens idx
        \<and> elem example_post_tokens idx < int 4"
    by (simp_all add: example_post_tokens_def)
  have enc: "shape example_features = [1, 576, 3]"
    by (simp add: example_features_def)
  from get_decoder_input_concat [OF W l1 l2 tok post enc]
  obtain x pre img pst where all:
    "get_decoder_input example_fusion example_pre_tokens (Some example_features)
          (Some example_post_tokens) = Inr x
    \<and> embedding (tok_embeddings example_fusion) example_pre_tokens = Inr pre
    \<and> MultiModalProjector_forward (mm_projector example_fusion) example_features = Inr img
    \<and> embedding (tok_embeddings example_fusion) example_post_tokens = Inr pst
    \<and> shape x = [1, 30 + 576 + 20, 2]
    \<and> (\<forall>b s d. elem x [b, s, d] =
          (if s < 30 then elem pre [b, s, d]
           else if s < 30 + 576 then elem img [b, s - 30, d]
           else elem pst [b, s - 30 - 576, d]))
    \<and> ((30::nat) = 30 \<and> (576::nat) = 576 \<and> (20::nat) = 20 \<longrightarrow> shape x ! 1 = 626)"
    by (elim exE) (rule that)
  note g = all [THEN conjunct1]
  note r1 = all [THEN conjunct2]
  note pre = r1 [THEN conjunct1]
  note img = r1 [THEN conjunct2, THEN conjunct1]
  note pst = r1 [THEN conjunct2, THEN conjunct2, THEN conjunct1]
  note r4 = r1 [THEN conjunct2, THEN conjunct2, THEN conjunct2]
  note sx = r4 [THEN conjunct1]
  note ex = r4 [THEN conjunct2, THEN conjunct1, rule_format]
  have pre_at: "elem pre [0, 29, 1] = 11"
    using pre by (auto simp: embedding_def example_fusion_def example_pre_tokens_def
        split: if_splits)
  have pst_at: "elem pst [0, 0, 0] = 20"
    using pst by (auto simp: embedding_def example_fusion_def example_post_tokens_def
        split: if_splits)
  have "[0 ..< 3] = [0, 1, 2::nat]" "[0 ..< 2] = [0, 1::nat]"
    by (simp_all add: upt_rec)
  then have img_at: "elem img [0, 0, 0] = 3" "elem img [0, 575, 1] = 3"
    using img by (auto simp: MultiModalProjector_forward_def Linear_forward_def
        example_fusion_def example_features_def)
  note len = r4 [THEN conjunct2, THEN conjunct2, THEN mp]
  have "shape x ! 1 = 626" by (rule len) simp
  then have "shape x = [1, 626, 2]" using sx by simp
  moreover have "elem x [0, 29, 1] = 11" using ex [of 0 29 1] pre_at by simp
  moreover have "elem x [0, 30, 0] = 3" using ex [of 0 30 0] img_at by simp
  moreover have "elem x [0, 605, 1] = 3" using ex [of 0 605 1] img_at by simp
  moreover have "elem x [0, 606, 0] = 20" using ex [of 0 606 0] pst_at by simp
  ultimately show ?thesis using g by (intro exI conjI)
qed




end
